theory Spec2Isabelle
  imports Complex_Main "HOL-Library.Sublist" "HOL-Library.AList"
begin

section \<open>Values, errors and effects\<close>

text \<open>
  The harness exists in two copies: \<^verbatim>\<open>src/index.ts\<close> (the refined variant) and
  \<^verbatim>\<open>lib/index.ts\<close> (the earlier variant). A definition named after a function of the
  source embeds the function of \<^verbatim>\<open>src/index.ts\<close>; the same name with the suffix
  \<open>_lib\<close> embeds the function of \<^verbatim>\<open>lib/index.ts\<close>.
\<close>

datatype browser_type = chromium | firefox | webkit

text \<open>
  A string of the model is a JavaScript string whose code units are below 256, the
  character \<open>n\<close> standing for the code unit \<open>n\<close>; read as the content of a buffer, it is a
  list of bytes.
\<close>

text \<open>JavaScript exceptions, with their messages.\<close>

datatype error = Error string | TypeError string | SyntaxError string

text \<open>\<^verbatim>\<open>`${error}`\<close>: the name alone when the message is empty.\<close>

definition name_and_message :: "string \<Rightarrow> string \<Rightarrow> string" where
  "name_and_message name m = (if m = [] then name else name @ '': '' @ m)"

fun error_toString :: "error \<Rightarrow> string" where
  "error_toString (Error m) = name_and_message ''Error'' m"
| "error_toString (TypeError m) = name_and_message ''TypeError'' m"
| "error_toString (SyntaxError m) = name_and_message ''SyntaxError'' m"

text \<open>
  JavaScript values as far as the harness handles them: what \<^verbatim>\<open>JSON.parse\<close> returns,
  and \<^verbatim>\<open>NaN\<close>, which the date conversion of the cookie can produce. An object is an
  association list in property order.
\<close>

datatype jsval =
    JNull
  | JBool bool
  | JNum rat
  | JNaN
  | JStr string
  | JArr "jsval list"
  | JObj "(string \<times> jsval) list"

text \<open>An argument of a console call is a value or a caught exception.\<close>

datatype logarg = Val jsval | Err error

datatype stdio = Ignore | Pipe

text \<open>
  The closures that the harness registers on the process and on the child's streams, one
  constructor for each closure of the source. A closure that kills the server carries the
  pid of the \<^verbatim>\<open>serverProcess\<close> it captured.
\<close>

datatype process_listener =
    RemoveTestData string
  | KillServer nat
  | KillServerAndExit nat int

datatype stream_listener = EchoStderr | EchoStdout | ScanForEndpoint

text \<open>The spawned server as the bridge holds it: its process identifier.\<close>

record child =
  pid :: nat

text \<open>
  The two functions exposed to the page; the exit function captures the \<^verbatim>\<open>server\<close>
  argument of \<^verbatim>\<open>runTestsInBrowser\<close>.
\<close>

datatype bridge_fn = LogFn | ExitFn "child option"

text \<open>
  Every call that leaves the harness is an event; a run is the list of its events in the
  order of the calls.
\<close>

datatype event =
    ShowHelp
  | Console string "logarg list"
  | ProcessExit int
  | TmpDirSync string
  | ProcessOnce string process_listener
  | ProcessOn string process_listener
  | Require string
  | Spawn string "string list" "(string \<times> string) list" "stdio list"
  | StderrOn string stream_listener
  | StdoutOn string stream_listener
  | ChildKill nat
  | Rimraf string
  | Launch browser_type bool
  | NewContext
  | AddCookies "jsval list"
  | NewPage
  | SetViewportSize nat nat
  | PageOn string
  | Goto string
  | ExposeFunction string bridge_fn
  | BrowserClose
  | TreeKill nat

text \<open>
  How a piece of code ends: it returns, it throws (an async function rejects), it ends the
  process through \<^verbatim>\<open>process.exit\<close> (the process then has an exit status), or it awaits a
  promise that is never settled.
\<close>

datatype 'a outcome = Returned 'a | Threw error | Exited int | Pending

type_synonym 'a io = "'a outcome \<times> event list"

definition skip :: "unit io" where
  "skip = (Returned (), [])"

definition emit :: "event \<Rightarrow> unit io" where
  "emit e = (Returned (), [e])"

text \<open>
  An awaited call into the browser library or into \<^verbatim>\<open>tree-kill\<close> can reject. Whether
  it does is outside the harness: \<open>rej e\<close> is the error the call \<open>e\<close> rejects with, if any.
\<close>

definition await :: "(event \<Rightarrow> error option) \<Rightarrow> event \<Rightarrow> unit io" where
  "await rej e = (case rej e of None \<Rightarrow> (Returned (), [e]) | Some err \<Rightarrow> (Threw err, [e]))"

definition return_io :: "'a \<Rightarrow> 'a io" where
  "return_io x = (Returned x, [])"

definition throw :: "error \<Rightarrow> 'a io" where
  "throw err = (Threw err, [])"

text \<open>
  \<^verbatim>\<open>process.exit(code)\<close>: no statement after it runs. (Node then runs the listeners of
  \<^verbatim>\<open>exit\<close> and ends the process; the event stands for all of that.) The event keeps the
  code of the call; the outcome is the exit status the parent of the process reads, which
  on a POSIX system is the lowest byte of the code: \<^verbatim>\<open>process.exit(256)\<close> ends with status
  0, \<^verbatim>\<open>process.exit(-1)\<close> with 255.
\<close>

definition exit_status :: "int \<Rightarrow> int" where
  "exit_status code = code mod 256"

definition process_exit :: "int \<Rightarrow> 'a io" where
  "process_exit code = (Exited (exit_status code), [ProcessExit code])"

definition bind_io :: "'a io \<Rightarrow> ('a \<Rightarrow> 'b io) \<Rightarrow> 'b io" where
  "bind_io m f =
     (case fst m of
        Returned x \<Rightarrow> (fst (f x), snd m @ snd (f x))
      | Threw err \<Rightarrow> (Threw err, snd m)
      | Exited code \<Rightarrow> (Exited code, snd m)
      | Pending \<Rightarrow> (Pending, snd m))"

text \<open>A block of statements: each runs if the ones before it returned.\<close>

fun block :: "unit io list \<Rightarrow> unit io" where
  "block [] = skip"
| "block (s # ss) = bind_io s (\<lambda>_. block ss)"

text \<open>\<^verbatim>\<open>try { body } catch (error) { handler }\<close>\<close>

definition try_catch :: "unit io \<Rightarrow> (error \<Rightarrow> unit io) \<Rightarrow> unit io" where
  "try_catch body handler =
     (case fst body of
        Threw err \<Rightarrow> (fst (handler err), snd body @ snd (handler err))
      | Returned x \<Rightarrow> body
      | Exited code \<Rightarrow> body
      | Pending \<Rightarrow> body)"

text \<open>A number in a template string.\<close>

fun digits :: "nat \<Rightarrow> string" where
  "digits n =
     (if n < 10 then [char_of (48 + n)] else digits (n div 10) @ [char_of (48 + n mod 10)])"

section \<open>The exit entry point\<close>

definition codeAutomationExit ::
  "(event \<Rightarrow> error option) \<Rightarrow> child option \<Rightarrow> int \<Rightarrow> unit io" where
  "codeAutomationExit rej server code =
     block
       [try_catch (await rej BrowserClose)
          (\<lambda>error. emit (Console ''error''
             [Val (JStr (''Error when closing browser: '' @ error_toString error))])),
        (case server of
           None \<Rightarrow> skip
         | Some s \<Rightarrow>
             try_catch (await rej (TreeKill (pid s)))
               (\<lambda>error. emit (Console ''error''
                  [Val (JStr (''Error when killing server process tree (pid: '' @ digits (pid s)
                     @ ''): '' @ error_toString error))]))),
        process_exit code]"

definition codeAutomationExit_lib ::
  "(event \<Rightarrow> error option) \<Rightarrow> child option \<Rightarrow> int \<Rightarrow> unit io" where
  "codeAutomationExit_lib rej server code =
     block
       [try_catch (await rej BrowserClose)
          (\<lambda>error. emit (Console ''error''
             [Val (JStr (''Error when closing browser: '' @ error_toString error))])),
        (case server of
           None \<Rightarrow> skip
         | Some s \<Rightarrow>
             try_catch (await rej (TreeKill (pid s)))
               (\<lambda>error. emit (Console ''error''
                  [Val (JStr (''Error when killing server process tree: ''
                     @ error_toString error))]))),
        process_exit code]"

text \<open>The calls of a run that are not log lines.\<close>

fun is_log :: "event \<Rightarrow> bool" where
  "is_log (Console m args) = True"
| "is_log e = False"

definition actions :: "event list \<Rightarrow> event list" where
  "actions tr = filter (\<lambda>e. \<not> is_log e) tr"


section \<open>What the harness is given\<close>

text \<open>
  The built-ins of Node and of the packages the harness imports are not part of the
  repository. The model takes them as parameters, so that every theorem holds whatever they
  compute; each field is named after the call it stands for.
  \<^item> \<open>base64_toString s\<close> is \<^verbatim>\<open>Buffer.from(s, 'base64').toString()\<close>;
  \<^item> \<open>JSON_parse s\<close> is \<^verbatim>\<open>JSON.parse(s)\<close>, which throws a \<^verbatim>\<open>SyntaxError\<close> or returns;
  \<^item> \<open>Date_getTime s\<close> is \<^verbatim>\<open>new Date(s).getTime()\<close> in milliseconds, \<open>None\<close> for \<^verbatim>\<open>NaN\<close>;
  \<^item> \<open>url_format pathname protocol host slashes\<close> is
    \<^verbatim>\<open>url.format({ pathname, protocol, host, slashes })\<close>;
  \<^item> \<open>String_toUpperCase s\<close> is \<^verbatim>\<open>s.toUpperCase()\<close>, of which the model uses the value on
    strings with a character outside ASCII only (on ASCII the result is written out below);
  \<^item> \<open>console_has m\<close> tells whether \<^verbatim>\<open>console[m]\<close> is defined, and then it is a method:
    so it is for every message type the browser library reports and for every other name
    that is not a property of \<^verbatim>\<open>console\<close>.
\<close>

record url =
  href :: string
  host :: "string option"

record library =
  base64_toString :: "string \<Rightarrow> string"
  JSON_parse :: "string \<Rightarrow> error + jsval"
  Date_getTime :: "string \<Rightarrow> int option"
  path_resolve :: "string \<Rightarrow> string"
  path_extname :: "string \<Rightarrow> string"
  path_join :: "string list \<Rightarrow> string"
  URI_file_path :: "string \<Rightarrow> string"
  url_format :: "string \<Rightarrow> string \<Rightarrow> string option \<Rightarrow> bool \<Rightarrow> string"
  url_parse :: "string \<Rightarrow> url"
  String_toUpperCase :: "string \<Rightarrow> string"
  console_has :: "string \<Rightarrow> bool"

text \<open>
  One invocation of the harness: the parsed flags (\<open>None\<close> for a flag that was not given),
  the environment, the platform, and what the three calls of \<^verbatim>\<open>launchServer\<close> into the
  outside return: the directory \<^verbatim>\<open>tmp.dirSync\<close> creates, the \<^verbatim>\<open>serverApplicationName\<close>
  that \<^verbatim>\<open>require\<close> reads from \<^verbatim>\<open>product.json\<close> (or the exception it throws), and the
  pid of the process \<^verbatim>\<open>cp.spawn\<close> starts.
\<close>

record invocation =
  argv_help :: bool
  argv_endpoint :: "string option"
  argv_authCookie :: "string option"
  argv_workspacePath :: "string option"
  argv_extensionDevelopmentPath :: "string option"
  argv_extensionTestsPath :: "string option"
  argv_debug :: bool
  argv_browser :: browser_type
  process_env :: "(string \<times> string) list"
  process_platform :: string
  tmp_dirSync_name :: string
  product_serverApplicationName :: "error + string"
  spawn_pid :: nat

text \<open>A string that may be \<^verbatim>\<open>undefined\<close> is truthy when it is defined and not empty.\<close>

definition truthy :: "string option \<Rightarrow> bool" where
  "truthy s = (case s of None \<Rightarrow> False | Some v \<Rightarrow> v \<noteq> [])"

text \<open>\<^verbatim>\<open>a || b\<close>\<close>

definition or_else :: "string option \<Rightarrow> string option \<Rightarrow> string option" where
  "or_else a b = (if truthy a then a else b)"

text \<open>Truthiness of a value, for \<^verbatim>\<open>if (authCookie)\<close>.\<close>

fun truthy_val :: "jsval \<Rightarrow> bool" where
  "truthy_val JNull = False"
| "truthy_val (JBool b) = b"
| "truthy_val (JNum r) = (r \<noteq> 0)"
| "truthy_val JNaN = False"
| "truthy_val (JStr s) = (s \<noteq> [])"
| "truthy_val (JArr vs) = True"
| "truthy_val (JObj kvs) = True"

section \<open>The authentication cookie\<close>

text \<open>
  Reading a property: a \<^verbatim>\<open>TypeError\<close> on \<^verbatim>\<open>null\<close>, \<^verbatim>\<open>undefined\<close> (here \<open>None\<close>) where
  the value has no such property. The harness reads \<^verbatim>\<open>expires\<close> and \<^verbatim>\<open>sameSite\<close> only,
  which no string, number, boolean or array has.
\<close>

fun get_prop :: "jsval \<Rightarrow> string \<Rightarrow> error + jsval option" where
  "get_prop JNull k = Inl (TypeError (''Cannot read property '' @ k @ '' of null''))"
| "get_prop (JObj kvs) k = Inr (map_of kvs k)"
| "get_prop v k = Inr None"

text \<open>Assigning a property of an object keeps the place of a property that exists.\<close>

fun set_prop :: "jsval \<Rightarrow> string \<Rightarrow> jsval \<Rightarrow> jsval" where
  "set_prop (JObj kvs) k v = JObj (AList.update k v kvs)"
| "set_prop w k v = w"

text \<open>
  \<^verbatim>\<open>x.toFixed(0)\<close> read back as a number: the integer nearest to \<open>x\<close>, the one of greater
  magnitude when two are equally near. The model divides exactly where the source divides
  doubles; a date holds at most 8.64e15 milliseconds, and for such a time the double nearest
  to the quotient rounds to the same integer as the quotient.
\<close>

definition toFixed0 :: "rat \<Rightarrow> int" where
  "toFixed0 x = (if 0 \<le> x then \<lfloor>x + 1 / 2\<rfloor> else - \<lfloor>- x + 1 / 2\<rfloor>)"

text \<open>\<^verbatim>\<open>+((new Date(d).getTime() / 1000).toFixed(0))\<close>\<close>

definition expires_seconds :: "library \<Rightarrow> string \<Rightarrow> jsval" where
  "expires_seconds L d =
     (case Date_getTime L d of
        None \<Rightarrow> JNaN
      | Some ms \<Rightarrow> JNum (of_int (toFixed0 (of_int ms / 1000))))"

text \<open>The letters \<^verbatim>\<open>a\<close> to \<^verbatim>\<open>z\<close>, and the capital of a character of ASCII.\<close>

definition ascii_lower :: "char \<Rightarrow> bool" where
  "ascii_lower c = (97 \<le> (of_char c :: nat) \<and> (of_char c :: nat) \<le> 122)"

definition ascii_upper :: "char \<Rightarrow> char" where
  "ascii_upper c = (if ascii_lower c then char_of ((of_char c :: nat) - 32) else c)"

text \<open>
  \<^verbatim>\<open>s.toUpperCase()\<close>. On a string of ASCII it changes the letters \<^verbatim>\<open>a\<close> to \<^verbatim>\<open>z\<close> and
  nothing else. On any other string the result is JavaScript's (it can be longer than the
  string, and can hold code units the model has no character for): the parameter.
\<close>

definition toUpperCase :: "library \<Rightarrow> string \<Rightarrow> string" where
  "toUpperCase L s =
     (if list_all (\<lambda>c. (of_char c :: nat) < 128) s then map ascii_upper s
      else String_toUpperCase L s)"

text \<open>\<^verbatim>\<open>s.charAt(0).toUpperCase() + s.slice(1)\<close>\<close>

definition capitalize :: "library \<Rightarrow> string \<Rightarrow> string" where
  "capitalize L s = toUpperCase L (take 1 s) @ drop 1 s"


text \<open>
  The two normalisations, which both variants apply to the parsed cookie: lines 47 to 52 of
  \<^verbatim>\<open>src/index.ts\<close>, lines 36 to 41 of \<^verbatim>\<open>lib/index.ts\<close>.
\<close>

definition normalize_expires :: "library \<Rightarrow> jsval \<Rightarrow> error + jsval" where
  "normalize_expires L authCookie =
     (case get_prop authCookie ''expires'' of
        Inl err \<Rightarrow> Inl err
      | Inr (Some (JStr d)) \<Rightarrow> Inr (set_prop authCookie ''expires'' (expires_seconds L d))
      | Inr other \<Rightarrow> Inr authCookie)"

definition normalize_sameSite :: "library \<Rightarrow> jsval \<Rightarrow> error + jsval" where
  "normalize_sameSite L authCookie =
     (case get_prop authCookie ''sameSite'' of
        Inl err \<Rightarrow> Inl err
      | Inr (Some (JStr s)) \<Rightarrow> Inr (set_prop authCookie ''sameSite'' (JStr (capitalize L s)))
      | Inr other \<Rightarrow> Inr authCookie)"

definition normalize_cookie :: "library \<Rightarrow> jsval \<Rightarrow> error + jsval" where
  "normalize_cookie L authCookie =
     (case normalize_expires L authCookie of
        Inl err \<Rightarrow> Inl err
      | Inr c \<Rightarrow> normalize_sameSite L c)"

text \<open>\<^verbatim>\<open>getAuthCookie\<close> of \<^verbatim>\<open>src/index.ts\<close>; \<open>None\<close> is \<^verbatim>\<open>undefined\<close>.\<close>

definition getAuthCookie :: "library \<Rightarrow> invocation \<Rightarrow> error + jsval option" where
  "getAuthCookie L I =
     (let authCookieStr = or_else (argv_authCookie I) (map_of (process_env I) ''AUTH_COOKIE'')
      in if truthy authCookieStr
         then (case authCookieStr of
                 None \<Rightarrow> Inr None
               | Some str \<Rightarrow>
                   (let decodedCookie = base64_toString L str
                    in case JSON_parse L decodedCookie of
                         Inl err \<Rightarrow> Inl err
                       | Inr authCookie \<Rightarrow>
                           (case normalize_cookie L authCookie of
                              Inl err \<Rightarrow> Inl err
                            | Inr c \<Rightarrow> Inr (Some c))))
         else Inr None)"

text \<open>Lines 62 to 65 of \<^verbatim>\<open>src/index.ts\<close>.\<close>

definition add_auth_cookie :: "library \<Rightarrow> (event \<Rightarrow> error option) \<Rightarrow> invocation \<Rightarrow> unit io" where
  "add_auth_cookie L rej I =
     (case getAuthCookie L I of
        Inl err \<Rightarrow> throw err
      | Inr None \<Rightarrow> skip
      | Inr (Some authCookie) \<Rightarrow>
          (if truthy_val authCookie then await rej (AddCookies [authCookie]) else skip))"

text \<open>Lines 34 to 43 of \<^verbatim>\<open>lib/index.ts\<close>: the variable holds the JSON text itself.\<close>

definition add_auth_cookie_lib ::
  "library \<Rightarrow> (event \<Rightarrow> error option) \<Rightarrow> invocation \<Rightarrow> unit io" where
  "add_auth_cookie_lib L rej I =
     (if truthy (map_of (process_env I) ''AUTH_COOKIE'')
      then (case map_of (process_env I) ''AUTH_COOKIE'' of
              None \<Rightarrow> skip
            | Some str \<Rightarrow>
                (case JSON_parse L str of
                   Inl err \<Rightarrow> throw err
                 | Inr authCookie \<Rightarrow>
                     (case normalize_cookie L authCookie of
                        Inl err \<Rightarrow> throw err
                      | Inr c \<Rightarrow> await rej (AddCookies [c]))))
      else skip)"

section \<open>The console relay and the logging entry point\<close>







text \<open>\<^verbatim>\<open>codeAutomationLog\<close>: calling an undefined console method throws.\<close>

definition codeAutomationLog :: "library \<Rightarrow> string \<Rightarrow> jsval list \<Rightarrow> unit io" where
  "codeAutomationLog L type args =
     (if console_has L type then emit (Console type (map Val args))
      else throw (TypeError ''console[type] is not a function''))"

section \<open>The browser session\<close>

definition width :: nat where
  "width = 1200"

definition height :: nat where
  "height = 800"

text \<open>
  \<^verbatim>\<open>URI.file(path.resolve(p)).path\<close>; \<^verbatim>\<open>path.resolve\<close> throws on a flag that was not
  given.
\<close>

definition file_uri_path :: "library \<Rightarrow> string option \<Rightarrow> error + string" where
  "file_uri_path L p =
     (case p of
        None \<Rightarrow> Inl (TypeError ''The path argument must be of type string. Received undefined'')
      | Some s \<Rightarrow> Inr (URI_file_path L (path_resolve L s)))"

definition protocol :: string where
  "protocol = ''vscode-remote''"

definition payloadParam :: "string \<Rightarrow> string \<Rightarrow> string" where
  \<open>payloadParam testExtensionUri testFilesUri =
     ''[["extensionDevelopmentPath","'' @ testExtensionUri
     @ ''"],["extensionTestsPath","'' @ testFilesUri
     @ ''"],["enableProposedApi",""],["skipWelcome","true"]]''\<close>

definition payloadParam_lib :: "string \<Rightarrow> string \<Rightarrow> string" where
  \<open>payloadParam_lib testExtensionUri testFilesUri =
     ''[["extensionDevelopmentPath","'' @ testExtensionUri
     @ ''"],["extensionTestsPath","'' @ testFilesUri
     @ ''"],["enableProposedApi",""],["webviewExternalEndpointCommit","5f19eee5dc9588ca96192f89587b5878b7d7180d"],["skipWelcome","true"]]''\<close>

text \<open>
  The address the page is sent to, lines 89 to 102 of \<^verbatim>\<open>src/index.ts\<close>: the argument of
  \<^verbatim>\<open>page.goto\<close>, or the exception thrown while it is built.
\<close>

definition navigation_url :: "library \<Rightarrow> invocation \<Rightarrow> url \<Rightarrow> error + string" where
  "navigation_url L I endpoint =
     (case file_uri_path L (argv_workspacePath I) of
        Inl err \<Rightarrow> Inl err
      | Inr testWorkspacePath \<Rightarrow>
     (case file_uri_path L (argv_extensionDevelopmentPath I) of
        Inl err \<Rightarrow> Inl err
      | Inr extensionPath \<Rightarrow>
     (case file_uri_path L (argv_extensionTestsPath I) of
        Inl err \<Rightarrow> Inl err
      | Inr testsPath \<Rightarrow>
          (let testExtensionUri = url_format L extensionPath protocol (host endpoint) True;
               testFilesUri = url_format L testsPath protocol (host endpoint) True
           in if path_extname L testWorkspacePath = ''.code-workspace''
              then Inr (href endpoint @ ''&workspace='' @ testWorkspacePath @ ''&payload=''
                        @ payloadParam testExtensionUri testFilesUri)
              else Inr (href endpoint @ ''&folder='' @ testWorkspacePath @ ''&payload=''
                        @ payloadParam testExtensionUri testFilesUri)))))"

text \<open>The same in \<^verbatim>\<open>lib/index.ts\<close>, lines 66 to 79: the workspace is sent as a URI.\<close>

definition navigation_url_lib :: "library \<Rightarrow> invocation \<Rightarrow> url \<Rightarrow> error + string" where
  "navigation_url_lib L I endpoint =
     (case file_uri_path L (argv_workspacePath I) of
        Inl err \<Rightarrow> Inl err
      | Inr workspacePath \<Rightarrow>
     (case file_uri_path L (argv_extensionDevelopmentPath I) of
        Inl err \<Rightarrow> Inl err
      | Inr extensionPath \<Rightarrow>
     (case file_uri_path L (argv_extensionTestsPath I) of
        Inl err \<Rightarrow> Inl err
      | Inr testsPath \<Rightarrow>
          (let testWorkspaceUri = url_format L workspacePath protocol (host endpoint) True;
               testExtensionUri = url_format L extensionPath protocol (host endpoint) True;
               testFilesUri = url_format L testsPath protocol (host endpoint) True
           in if path_extname L testWorkspaceUri = ''.code-workspace''
              then Inr (href endpoint @ ''?workspace='' @ testWorkspaceUri @ ''&payload=''
                        @ payloadParam_lib testExtensionUri testFilesUri)
              else Inr (href endpoint @ ''?folder='' @ testWorkspaceUri @ ''&payload=''
                        @ payloadParam_lib testExtensionUri testFilesUri)))))"

definition runTestsInBrowser ::
  "library \<Rightarrow> (event \<Rightarrow> error option) \<Rightarrow> invocation
     \<Rightarrow> browser_type \<Rightarrow> url \<Rightarrow> child option \<Rightarrow> unit io" where
  "runTestsInBrowser L rej I browserType endpoint server =
     block
       [await rej (Launch browserType True),
        await rej NewContext,
        add_auth_cookie L rej I,
        await rej NewPage,
        await rej (SetViewportSize width height),
        emit (PageOn ''pageerror''),
        emit (PageOn ''crash''),
        emit (PageOn ''response''),
        emit (PageOn ''console''),
        emit (PageOn ''requestfailed''),
        (case navigation_url L I endpoint of
           Inl err \<Rightarrow> throw err
         | Inr address \<Rightarrow> await rej (Goto address)),
        await rej (ExposeFunction ''codeAutomationLog'' LogFn),
        await rej (ExposeFunction ''codeAutomationExit'' (ExitFn server))]"

definition runTestsInBrowser_lib ::
  "library \<Rightarrow> (event \<Rightarrow> error option) \<Rightarrow> invocation
     \<Rightarrow> browser_type \<Rightarrow> url \<Rightarrow> child option \<Rightarrow> unit io" where
  "runTestsInBrowser_lib L rej I browserType endpoint server =
     block
       [await rej (Launch browserType True),
        await rej NewContext,
        add_auth_cookie_lib L rej I,
        await rej NewPage,
        await rej (SetViewportSize width height),
        emit (PageOn ''pageerror''),
        emit (PageOn ''crash''),
        emit (PageOn ''response''),
        emit (PageOn ''console''),
        emit (PageOn ''requestfailed''),
        (case navigation_url_lib L I endpoint of
           Inl err \<Rightarrow> throw err
         | Inr address \<Rightarrow> await rej (Goto address)),
        await rej (ExposeFunction ''codeAutomationLog'' LogFn),
        await rej (ExposeFunction ''codeAutomationExit'' (ExitFn server))]"

section \<open>The server\<close>

fun browser_name :: "browser_type \<Rightarrow> string" where
  "browser_name chromium = ''chromium''"
| "browser_name firefox = ''firefox''"
| "browser_name webkit = ''webkit''"

text \<open>\<^verbatim>\<open>{ ...base, ...over }\<close>: a key of \<open>over\<close> replaces the value of the same key of \<open>base\<close>.\<close>

definition spread :: "(string \<times> string) list \<Rightarrow> (string \<times> string) list \<Rightarrow> (string \<times> string) list" where
  "spread base over = fold (\<lambda>(k, v). AList.update k v) over base"

text \<open>
  \<^verbatim>\<open>launchServer\<close> of \<^verbatim>\<open>src/index.ts\<close> up to the creation of the promise it returns:
  the calls it makes and the listeners it registers. The result is the \<^verbatim>\<open>serverProcess\<close>.
  The promise itself is settled later, by the listener \<open>ScanForEndpoint\<close> (below).
\<close>

definition launchServer :: "library \<Rightarrow> invocation \<Rightarrow> browser_type \<Rightarrow> child io" where
  "launchServer L I browserType =
     (case map_of (process_env I) ''VSCODE_REMOTE_SERVER_PATH'' of
        None \<Rightarrow> throw (Error ''VSCODE_REMOTE_SERVER_PATH env variable not provided'')
      | Some serverPath \<Rightarrow>
          if serverPath = []
          then throw (Error ''VSCODE_REMOTE_SERVER_PATH env variable not provided'')
          else
            (let testDataPath = tmp_dirSync_name I;
                 userDataDir = path_join L [testDataPath, ''d''];
                 env = spread [(''VSCODE_BROWSER'', browser_name browserType)] (process_env I);
                 serverArgs = [''--driver'', ''web'', ''--enable-proposed-api'',
                               ''--disable-telemetry'', ''--server-data-dir'', userDataDir];
                 serverProcess = \<lparr>pid = spawn_pid I\<rparr>
             in bind_io
                  (block
                     [emit (TmpDirSync ''t''),
                      emit (ProcessOnce ''exit'' (RemoveTestData testDataPath)),
                      emit (Require (path_join L [serverPath, ''product.json'']))])
                  (\<lambda>_. case product_serverApplicationName I of
                          Inl err \<Rightarrow> throw err
                        | Inr serverApplicationName \<Rightarrow>
                            (let serverLocation = path_join L [serverPath, ''bin'',
                                   serverApplicationName
                                   @ (if process_platform I = ''win32'' then ''.cmd'' else [])];
                                 stdio = (if argv_debug I then [Pipe, Pipe, Pipe]
                                          else [Ignore, Pipe, Ignore])
                             in bind_io
                                  (block
                                     [emit (Spawn serverLocation serverArgs env stdio),
                                      (if argv_debug I
                                       then block [emit (StderrOn ''data'' EchoStderr),
                                                   emit (StdoutOn ''data'' EchoStdout)]
                                       else skip),
                                      emit (ProcessOn ''exit'' (KillServer (pid serverProcess))),
                                      emit (ProcessOn ''SIGINT''
                                              (KillServerAndExit (pid serverProcess) (128 + 2))),
                                      emit (ProcessOn ''SIGTERM''
                                              (KillServerAndExit (pid serverProcess) (128 + 15))),
                                      emit (StdoutOn ''data'' ScanForEndpoint)])
                                  (\<lambda>_. return_io serverProcess)))))"

definition launchServer_lib :: "library \<Rightarrow> invocation \<Rightarrow> browser_type \<Rightarrow> child io" where
  "launchServer_lib L I browserType =
     (case map_of (process_env I) ''VSCODE_REMOTE_SERVER_PATH'' of
        None \<Rightarrow> throw (Error ''VSCODE_REMOTE_SERVER_PATH env variable not provided'')
      | Some serverPath \<Rightarrow>
          if serverPath = []
          then throw (Error ''VSCODE_REMOTE_SERVER_PATH env variable not provided'')
          else
            (let testDataPath = tmp_dirSync_name I;
                 userDataDir = path_join L [testDataPath, ''d''];
                 env = spread [(''VSCODE_AGENT_FOLDER'', userDataDir),
                               (''VSCODE_BROWSER'', browser_name browserType)] (process_env I);
                 serverArgs = [''--browser'', ''none'', ''--driver'', ''web'',
                               ''--enable-proposed-api'', ''--disable-telemetry''];
                 serverLocation = path_join L [serverPath,
                   ''server.'' @ (if process_platform I = ''win32'' then ''cmd'' else ''sh'')];
                 stdio = [Ignore, Pipe, Ignore];
                 serverProcess = \<lparr>pid = spawn_pid I\<rparr>
             in bind_io
                  (block
                     [emit (TmpDirSync ''t''),
                      emit (ProcessOnce ''exit'' (RemoveTestData testDataPath)),
                      emit (Spawn serverLocation serverArgs env stdio),
                      emit (ProcessOn ''exit'' (KillServer (pid serverProcess))),
                      emit (ProcessOn ''SIGINT'' (KillServer (pid serverProcess))),
                      emit (ProcessOn ''SIGTERM'' (KillServer (pid serverProcess))),
                      emit (StdoutOn ''data'' ScanForEndpoint)])
                  (\<lambda>_. return_io serverProcess)))"

subsection \<open>The listeners of the process\<close>

fun listener_body :: "process_listener \<Rightarrow> unit io" where
  "listener_body (RemoveTestData testDataPath) = emit (Rimraf testDataPath)"
| "listener_body (KillServer p) = emit (ChildKill p)"
| "listener_body (KillServerAndExit p code) = block [emit (ChildKill p), process_exit code]"

text \<open>The listeners that a run has registered for an event of the process, in order
  (\<^verbatim>\<open>once\<close> and \<^verbatim>\<open>on\<close> differ from the second emission on only).\<close>

fun listeners :: "string \<Rightarrow> event list \<Rightarrow> process_listener list" where
  "listeners name [] = []"
| "listeners name (ProcessOn n l # tr) = (if n = name then l # listeners name tr else listeners name tr)"
| "listeners name (ProcessOnce n l # tr) = (if n = name then l # listeners name tr else listeners name tr)"
| "listeners name (e # tr) = listeners name tr"

text \<open>
  The process emits an event (a signal is delivered): its listeners run in the order of
  their registration. With a listener registered for a signal, Node does not end the
  process by itself: what happens is what the listeners do.
\<close>

definition process_emit :: "string \<Rightarrow> event list \<Rightarrow> unit io" where
  "process_emit name tr = block (map listener_body (listeners name tr))"

subsection \<open>The ready line\<close>

text \<open>\<^verbatim>\<open>data.toString('ascii')\<close> clears the highest bit of every byte.\<close>

definition toString_ascii :: "string \<Rightarrow> string" where
  "toString_ascii data = map (\<lambda>c. char_of ((of_char c :: nat) mod 128)) data"

text \<open>The characters that \<^verbatim>\<open>.\<close> does not match, among those of an ASCII string.\<close>

definition line_terminator :: "char \<Rightarrow> bool" where
  "line_terminator c = (c = CHR 0x0A \<or> c = CHR 0x0D)"

text \<open>
  \<^verbatim>\<open>s.match(/Web UI available at (.+)/)\<close>: \<open>None\<close> for \<^verbatim>\<open>null\<close>, else the first group of
  the leftmost match, which runs to the end of the line.
\<close>

fun match_Web_UI :: "string \<Rightarrow> string option" where
  "match_Web_UI [] = None"
| "match_Web_UI (c # cs) =
     (let rest = takeWhile (\<lambda>x. \<not> line_terminator x) (drop 20 (c # cs))
      in if prefix ''Web UI available at '' (c # cs) \<and> rest \<noteq> []
         then Some rest
         else match_Web_UI cs)"

record launched =
  endpoint :: url
  server :: "child option"

text \<open>
  The listener \<open>ScanForEndpoint\<close> on a chunk (lines 186 to 191, the same in both variants):
  the value it calls the resolver \<^verbatim>\<open>c\<close> with, if it calls it.
\<close>

definition scan_for_endpoint :: "library \<Rightarrow> child \<Rightarrow> string \<Rightarrow> launched option" where
  "scan_for_endpoint L serverProcess data =
     (case match_Web_UI (toString_ascii data) of
        None \<Rightarrow> None
      | Some m \<Rightarrow> Some \<lparr>endpoint = url_parse L m, server = Some serverProcess\<rparr>)"

text \<open>A promise is settled by the first call of its resolver; later calls change nothing.\<close>

definition resolve_once :: "'a option \<Rightarrow> 'a option \<Rightarrow> 'a option" where
  "resolve_once promise call = (case promise of None \<Rightarrow> call | Some v \<Rightarrow> Some v)"

text \<open>The state of the promise of \<^verbatim>\<open>launchServer\<close> after the child has written the chunks.\<close>

fun stdout_data :: "library \<Rightarrow> child \<Rightarrow> launched option \<Rightarrow> string list \<Rightarrow> launched option" where
  "stdout_data L serverProcess promise [] = promise"
| "stdout_data L serverProcess promise (data # chunks) =
     stdout_data L serverProcess
       (resolve_once promise (scan_for_endpoint L serverProcess data)) chunks"

text \<open>The chunks up to the first that holds the ready line: the ones written while the
  harness waits for the promise.\<close>

fun until_ready :: "string list \<Rightarrow> string list" where
  "until_ready [] = []"
| "until_ready (data # chunks) =
     (case match_Web_UI (toString_ascii data) of
        None \<Rightarrow> data # until_ready chunks
      | Some m \<Rightarrow> [data])"

text \<open>The listener \<open>EchoStdout\<close> of the debug mode, on the chunks written before the promise
  is settled. (The chunks of the error stream and the chunks written later, while the
  browser session runs, are not modelled.)\<close>

definition echo_stdout :: "invocation \<Rightarrow> string list \<Rightarrow> unit io" where
  "echo_stdout I chunks =
     (if argv_debug I
      then block (map (\<lambda>data. emit (Console ''log'' [Val (JStr (''Server stdout: '' @ data))]))
                    (until_ready chunks))
      else skip)"

section \<open>The top level\<close>

text \<open>\<^verbatim>\<open>promise.then(onFulfilled, onRejected)\<close>\<close>

definition promise_then :: "'a io \<Rightarrow> ('a \<Rightarrow> 'b io) \<Rightarrow> (error \<Rightarrow> 'b io) \<Rightarrow> 'b io" where
  "promise_then m onFulfilled onRejected =
     (case fst m of
        Returned x \<Rightarrow> (fst (onFulfilled x), snd m @ snd (onFulfilled x))
      | Threw err \<Rightarrow> (fst (onRejected err), snd m @ snd (onRejected err))
      | Exited code \<Rightarrow> (Exited code, snd m)
      | Pending \<Rightarrow> (Pending, snd m))"

text \<open>
  \<^verbatim>\<open>serverPromise\<close>, lines 195 to 200: \<open>chunks\<close> is what the child writes to its standard
  output. The promise stays pending when no chunk holds the ready line.
\<close>

definition serverPromise :: "library \<Rightarrow> invocation \<Rightarrow> string list \<Rightarrow> launched io" where
  "serverPromise L I chunks =
     (let launch =
            bind_io (launchServer L I (argv_browser I))
              (\<lambda>serverProcess.
                 bind_io (echo_stdout I chunks)
                   (\<lambda>_. case stdout_data L serverProcess None chunks of
                           None \<Rightarrow> (Pending, [])
                         | Some r \<Rightarrow> return_io r))
      in case argv_endpoint I of
           None \<Rightarrow> launch
         | Some e \<Rightarrow>
             if e = [] then launch
             else return_io \<lparr>endpoint = url_parse L e, server = None\<rparr>)"

definition serverPromise_lib :: "library \<Rightarrow> invocation \<Rightarrow> string list \<Rightarrow> launched io" where
  "serverPromise_lib L I chunks =
     (let launch =
            bind_io (launchServer_lib L I (argv_browser I))
              (\<lambda>serverProcess.
                 case stdout_data L serverProcess None chunks of
                   None \<Rightarrow> (Pending, [])
                 | Some r \<Rightarrow> return_io r)
      in case argv_endpoint I of
           None \<Rightarrow> launch
         | Some e \<Rightarrow>
             if e = [] then launch
             else return_io \<lparr>endpoint = url_parse L e, server = None\<rparr>)"

text \<open>The module from its first statement to the end of the \<^verbatim>\<open>then\<close> at its bottom.\<close>

definition main :: "library \<Rightarrow> (event \<Rightarrow> error option) \<Rightarrow> invocation \<Rightarrow> string list \<Rightarrow> unit io" where
  "main L rej I chunks =
     (if argv_help I
      then block [emit ShowHelp, process_exit 0]
      else promise_then (serverPromise L I chunks)
             (\<lambda>r. runTestsInBrowser L rej I (argv_browser I) (endpoint r) (server r))
             (\<lambda>error. block [emit (Console ''error'' [Err error]), process_exit 1]))"

definition main_lib :: "library \<Rightarrow> (event \<Rightarrow> error option) \<Rightarrow> invocation \<Rightarrow> string list \<Rightarrow> unit io" where
  "main_lib L rej I chunks =
     (if argv_help I
      then block [emit ShowHelp, process_exit 0]
      else promise_then (serverPromise_lib L I chunks)
             (\<lambda>r. runTestsInBrowser_lib L rej I (argv_browser I) (endpoint r) (server r))
             (\<lambda>error. block [emit (Console ''error'' [Err error]), process_exit 1]))"

section \<open>Reading a run\<close>

fun is_goto :: "event \<Rightarrow> bool" where
  "is_goto (Goto address) = True"
| "is_goto e = False"

fun is_spawn :: "event \<Rightarrow> bool" where
  "is_spawn (Spawn command args env stdio) = True"
| "is_spawn e = False"

text \<open>The part of a run that precedes its first \<^verbatim>\<open>page.goto\<close>.\<close>

definition before_navigation :: "event list \<Rightarrow> event list" where
  "before_navigation tr = takeWhile (\<lambda>e. \<not> is_goto e) tr"

text \<open>The page events the diagnostics relay subscribes to.\<close>

definition relay_events :: "string list" where
  "relay_events = [''pageerror'', ''crash'', ''response'', ''console'', ''requestfailed'']"

definition relay_installed_before_navigation :: "event list \<Rightarrow> bool" where
  "relay_installed_before_navigation tr =
     list_all (\<lambda>name. PageOn name \<in> set (before_navigation tr)) relay_events"

definition bridge_installed_before_navigation :: "child option \<Rightarrow> event list \<Rightarrow> bool" where
  "bridge_installed_before_navigation srv tr =
     (ExposeFunction ''codeAutomationLog'' LogFn \<in> set (before_navigation tr)
      \<and> ExposeFunction ''codeAutomationExit'' (ExitFn srv) \<in> set (before_navigation tr))"

text \<open>
  An address carries the query key \<open>k\<close> when it holds \<open>k\<close> followed by \<^verbatim>\<open>=\<close> at the place
  of a parameter name, that is right after a \<^verbatim>\<open>&\<close> or a \<^verbatim>\<open>?\<close>.
\<close>

definition query_key :: "string \<Rightarrow> string \<Rightarrow> bool" where
  "query_key k address =
     (sublist (''&'' @ k @ ''='') address \<or> sublist (''?'' @ k @ ''='') address)"

text \<open>A text that brings neither \<^verbatim>\<open>folder\<close> nor \<^verbatim>\<open>workspace\<close> as a query key of its own.\<close>

definition free_of_keys :: "string \<Rightarrow> bool" where
  "free_of_keys s = (\<not> query_key ''folder'' s \<and> \<not> query_key ''workspace'' s)"

section \<open>A worked invocation\<close>

text \<open>
  The examples below run the harness on one invocation. \<open>node_at_examples\<close> gives the
  results of the built-ins at the arguments that occur in these examples: absolute POSIX
  paths without \<^verbatim>\<open>.\<close> or \<^verbatim>\<open>..\<close> segments, one cookie, one date, two addresses, two
  words with a letter outside ASCII. At other arguments its fields are not meant to describe
  Node, \<^verbatim>\<open>path.extname\<close> apart, which is written out.
\<close>

text \<open>
  \<^verbatim>\<open>path.extname\<close> on a POSIX system. Node drops the slashes the path ends with and looks
  at the last segment of what is left: the extension goes from the last dot of the segment to
  its end, and is empty when the segment has no dot, starts at its last dot, or is \<^verbatim>\<open>..\<close>.
\<close>

definition posix_extname :: "string \<Rightarrow> string" where
  "posix_extname p =
     (let segment = rev (takeWhile (\<lambda>c. c \<noteq> CHR ''/'') (dropWhile (\<lambda>c. c = CHR ''/'') (rev p)));
          after_dot = rev (takeWhile (\<lambda>c. c \<noteq> CHR ''.'') (rev segment));
          before_dot = take (length segment - length after_dot - 1) segment
      in if CHR ''.'' \<notin> set segment \<or> before_dot = [] \<or> segment = ''..'' then []
         else CHR ''.'' # after_dot)"

definition example_cookie_text :: string where
  \<open>example_cookie_text =
     ''{"name":"gitpod","value":"abc","domain":"gitpod.io","path":"/","expires":"2030-01-01T00:00:00.000Z","httpOnly":true,"secure":true,"sameSite":"lax"}''\<close>

definition example_cookie_base64 :: string where
  "example_cookie_base64 =
     ''eyJuYW1lIjoiZ2l0cG9kIiwidmFsdWUiOiJhYmMiLCJkb21haW4iOiJnaXRwb2QuaW8iLCJwYXRoIjoiLyIsImV4cGlyZXMiOiIyMDMwLTAxLTAxVDAwOjAwOjAwLjAwMFoiLCJodHRwT25seSI6dHJ1ZSwic2VjdXJlIjp0cnVlLCJzYW1lU2l0ZSI6ImxheCJ9''"

definition example_cookie :: jsval where
  "example_cookie =
     JObj [(''name'', JStr ''gitpod''), (''value'', JStr ''abc''), (''domain'', JStr ''gitpod.io''),
           (''path'', JStr ''/''), (''expires'', JStr ''2030-01-01T00:00:00.000Z''),
           (''httpOnly'', JBool True), (''secure'', JBool True), (''sameSite'', JStr ''lax'')]"

definition node_at_examples :: library where
  "node_at_examples =
     \<lparr>base64_toString = (\<lambda>s. if s = example_cookie_base64 then example_cookie_text else []),
      JSON_parse = (\<lambda>s. if s = example_cookie_text then Inr example_cookie
                          else Inl (SyntaxError ''Unexpected token'')),
      Date_getTime = (\<lambda>s. if s = ''2030-01-01T00:00:00.000Z'' then Some 1893456000000 else None),
      path_resolve = (\<lambda>p. p),
      path_extname = posix_extname,
      path_join = (\<lambda>ps. case ps of [] \<Rightarrow> ''.'' | q # qs \<Rightarrow> foldl (\<lambda>a b. a @ ''/'' @ b) q qs),
      URI_file_path = (\<lambda>p. p),
      url_format = (\<lambda>pathname protocol host slashes.
                      protocol @ ''://'' @ (case host of None \<Rightarrow> [] | Some h \<Rightarrow> h) @ pathname),
      url_parse = (\<lambda>s. \<lparr>href = s,
                           host = (if s = ''http://127.0.0.1:9999/'' then Some ''127.0.0.1:9999''
                                   else if s = ''http://a.code-workspace/'' then Some ''a.code-workspace''
                                   else None)\<rparr>),
      String_toUpperCase = (\<lambda>s. if s = [CHR 0xE9] then [CHR 0xC9]
                                else if s = [CHR 0xDF] then ''SS'' else s),
      console_has = (\<lambda>m. m \<in> set [''log'', ''info'', ''debug'', ''warn'', ''error''])\<rparr>"

definition example_invocation :: invocation where
  "example_invocation =
     \<lparr>argv_help = False,
      argv_endpoint = None,
      argv_authCookie = None,
      argv_workspacePath = Some ''/ws/demo.code-workspace'',
      argv_extensionDevelopmentPath = Some ''/ext'',
      argv_extensionTestsPath = Some ''/ext/out/test'',
      argv_debug = False,
      argv_browser = chromium,
      process_env = [(''VSCODE_REMOTE_SERVER_PATH'', ''/opt/server'')],
      process_platform = ''linux'',
      tmp_dirSync_name = ''/tmp/t-1'',
      product_serverApplicationName = Inr ''code-server'',
      spawn_pid = 4242\<rparr>"

definition example_endpoint :: url where
  "example_endpoint = \<lparr>href = ''http://127.0.0.1:9999/'', host = Some ''127.0.0.1:9999''\<rparr>"

text \<open>
  A second invocation: the harness of \<^verbatim>\<open>lib/index.ts\<close> is pointed at a server that runs
  on a host named \<^verbatim>\<open>a.code-workspace\<close> (flag \<^verbatim>\<open>--endpoint http://a.code-workspace/\<close>) and is
  asked to open the root folder (flag \<^verbatim>\<open>--workspacePath /\<close>).
\<close>

definition root_folder_invocation :: invocation where
  "root_folder_invocation =
     example_invocation
       \<lparr>argv_endpoint := Some ''http://a.code-workspace/'', argv_workspacePath := Some ''/''\<rparr>"

definition named_host_endpoint :: url where
  "named_host_endpoint = \<lparr>href = ''http://a.code-workspace/'', host = Some ''a.code-workspace''\<rparr>"

text \<open>The browser session of the example, every call into the browser succeeding.\<close>

definition example_session :: "unit io" where
  "example_session =
     runTestsInBrowser node_at_examples (\<lambda>e. None) example_invocation chromium
       example_endpoint None"

definition example_session_lib :: "unit io" where
  "example_session_lib =
     runTestsInBrowser_lib node_at_examples (\<lambda>e. None) example_invocation chromium
       example_endpoint None"

section \<open>Properties\<close>

subsection \<open>Blocks and their events\<close>

lemma snd_block_subset: "set (snd (block ss)) \<subseteq> (\<Union>s \<in> set ss. set (snd s))"
proof (induction ss)
  case Nil
  then show ?case by (simp add: skip_def)
next
  case (Cons s ss)
  have "set (snd (block (s # ss))) \<subseteq> set (snd s) \<union> set (snd (block ss))"
    by (auto simp: bind_io_def split: outcome.splits)
  with Cons show ?case by auto
qed

lemma snd_await [simp]: "snd (await rej e) = [e]"
  by (simp add: await_def split: option.splits)

lemma fst_await: "fst (await rej e) = (case rej e of None \<Rightarrow> Returned () | Some err \<Rightarrow> Threw err)"
  by (simp add: await_def split: option.splits)

lemma snd_emit [simp]: "snd (emit e) = [e]"
  by (simp add: emit_def)

lemma fst_emit [simp]: "fst (emit e) = Returned ()"
  by (simp add: emit_def)

lemma snd_throw [simp]: "snd (throw err) = []"
  by (simp add: throw_def)

lemma fst_throw [simp]: "fst (throw err) = Threw err"
  by (simp add: throw_def)

lemma snd_skip [simp]: "snd skip = []"
  by (simp add: skip_def)

lemma fst_skip [simp]: "fst skip = Returned ()"
  by (simp add: skip_def)

lemma snd_block_Cons:
  "snd (block (s # ss)) = snd s @ (if fst s = Returned () then snd (block ss) else [])"
  by (cases "fst s") (simp_all add: bind_io_def)

lemma fst_block_Cons:
  "fst (block (s # ss)) = (if fst s = Returned () then fst (block ss) else fst s)"
  by (cases "fst s") (simp_all add: bind_io_def)

lemma snd_block_append:
  "snd (block (xs @ ys)) = snd (block xs) @ (if fst (block xs) = Returned () then snd (block ys) else [])"
  by (induction xs) (simp_all del: block.simps(2) add: snd_block_Cons fst_block_Cons)

lemma not_in_block:
  "(\<And>s. s \<in> set ss \<Longrightarrow> e \<notin> set (snd s)) \<Longrightarrow> e \<notin> set (snd (block ss))"
  using snd_block_subset [of ss] by blast

lemma block_emits: "block (map emit es) = (Returned (), es)"
  by (induction es) (simp_all add: skip_def bind_io_def emit_def)

lemma try_catch_await:
  "try_catch (await rej e) h =
     (case rej e of None \<Rightarrow> (Returned (), [e]) | Some err \<Rightarrow> (fst (h err), e # snd (h err)))"
  by (simp add: try_catch_def await_def split: option.splits)



subsection \<open>The exit entry point\<close>

text \<open>
  Claim C1 says that the outer process terminates with exit code \<open>N\<close> for every integer
  \<open>N\<close>. It does not for \<open>N = 256\<close>: the entry point of either variant calls
  \<^verbatim>\<open>process.exit(256)\<close>, and the process ends with status 0, the status of a run without
  failures.
\<close>

theorem exit_code_256_ends_with_status_0:
  "codeAutomationExit (\<lambda>e. None) None 256 = (Exited 0, [BrowserClose, ProcessExit 256])
   \<and> fst (codeAutomationExit (\<lambda>e. None) None 256) \<noteq> Exited 256
   \<and> codeAutomationExit_lib (\<lambda>e. None) None 256 = (Exited 0, [BrowserClose, ProcessExit 256])
   \<and> fst (codeAutomationExit_lib (\<lambda>e. None) None 256) \<noteq> Exited 256"
  by (simp add: codeAutomationExit_def codeAutomationExit_lib_def try_catch_await
      bind_io_def skip_def process_exit_def exit_status_def)

text \<open>
  Claim C1, amended. For every code \<open>N\<close>, whatever the browser and \<^verbatim>\<open>tree-kill\<close> answer,
  the exit entry point of either variant calls, in this order, \<^verbatim>\<open>browser.close()\<close>, then
  \<^verbatim>\<open>tree-kill\<close> on the server's pid if there is a server, then \<^verbatim>\<open>process.exit(N)\<close>.
  A rejection of the first or the second call only adds a line on \<^verbatim>\<open>console.error\<close>
  after the call: the later calls are made all the same, nothing is thrown, and the code
  passed to \<^verbatim>\<open>process.exit\<close> is \<open>N\<close>. The process ends with status \<open>N mod 256\<close>, which is
  \<open>N\<close> itself when \<open>N\<close> is between 0 and 255.
\<close>

theorem codeAutomationExit_closes_kills_exits:
  "fst (codeAutomationExit rej srv N) = Exited (N mod 256)
   \<and> (0 \<le> N \<and> N < 256 \<longrightarrow> fst (codeAutomationExit rej srv N) = Exited N)
   \<and> snd (codeAutomationExit rej srv N) =
       BrowserClose
       # (case rej BrowserClose of
            None \<Rightarrow> []
          | Some err \<Rightarrow> [Console ''error''
              [Val (JStr (''Error when closing browser: '' @ error_toString err))]])
       @ (case srv of
            None \<Rightarrow> []
          | Some s \<Rightarrow>
              TreeKill (pid s)
              # (case rej (TreeKill (pid s)) of
                   None \<Rightarrow> []
                 | Some err \<Rightarrow> [Console ''error''
                     [Val (JStr (''Error when killing server process tree (pid: ''
                        @ digits (pid s) @ ''): '' @ error_toString err))]]))
       @ [ProcessExit N]
   \<and> actions (snd (codeAutomationExit rej srv N)) =
       BrowserClose # (case srv of None \<Rightarrow> [] | Some s \<Rightarrow> [TreeKill (pid s)])
       @ [ProcessExit N]
   \<and> fst (codeAutomationExit_lib rej srv N) = Exited (N mod 256)
   \<and> (0 \<le> N \<and> N < 256 \<longrightarrow> fst (codeAutomationExit_lib rej srv N) = Exited N)
   \<and> snd (codeAutomationExit_lib rej srv N) =
       BrowserClose
       # (case rej BrowserClose of
            None \<Rightarrow> []
          | Some err \<Rightarrow> [Console ''error''
              [Val (JStr (''Error when closing browser: '' @ error_toString err))]])
       @ (case srv of
            None \<Rightarrow> []
          | Some s \<Rightarrow>
              TreeKill (pid s)
              # (case rej (TreeKill (pid s)) of
                   None \<Rightarrow> []
                 | Some err \<Rightarrow> [Console ''error''
                     [Val (JStr (''Error when killing server process tree: ''
                        @ error_toString err))]]))
       @ [ProcessExit N]
   \<and> actions (snd (codeAutomationExit_lib rej srv N)) =
       BrowserClose # (case srv of None \<Rightarrow> [] | Some s \<Rightarrow> [TreeKill (pid s)])
       @ [ProcessExit N]"
  by (simp add: codeAutomationExit_def codeAutomationExit_lib_def try_catch_await
      bind_io_def skip_def emit_def process_exit_def exit_status_def actions_def
      split: option.splits)

text \<open>
  A run with code 3 and a server of pid 4242, in which \<^verbatim>\<open>browser.close()\<close> rejects with
  an error without a message: the tree is killed and the process ends with status 3.
\<close>

theorem codeAutomationExit_closes_kills_exits_witness:
  "(0::int) \<le> 3 \<and> (3::int) < 256
   \<and> codeAutomationExit (\<lambda>e. if e = BrowserClose then Some (Error []) else None)
         (Some \<lparr>pid = 4242\<rparr>) 3
       = (Exited 3,
          [BrowserClose,
           Console ''error'' [Val (JStr ''Error when closing browser: Error'')],
           TreeKill 4242,
           ProcessExit 3])
   \<and> codeAutomationExit_lib (\<lambda>e. if e = BrowserClose then Some (Error []) else None)
         (Some \<lparr>pid = 4242\<rparr>) 3
       = (Exited 3,
          [BrowserClose,
           Console ''error'' [Val (JStr ''Error when closing browser: Error'')],
           TreeKill 4242,
           ProcessExit 3])"
  using codeAutomationExit_closes_kills_exits
    [of "\<lambda>e. if e = BrowserClose then Some (Error []) else None" "Some \<lparr>pid = 4242\<rparr>" 3]
  by (simp add: prod_eq_iff name_and_message_def)

subsection \<open>The listeners of the launch\<close>

lemma launchServer_no_path:
  assumes "\<not> truthy (map_of (process_env I) ''VSCODE_REMOTE_SERVER_PATH'')"
  shows "launchServer L I bt = throw (Error ''VSCODE_REMOTE_SERVER_PATH env variable not provided'')"
    and "launchServer_lib L I bt = throw (Error ''VSCODE_REMOTE_SERVER_PATH env variable not provided'')"
proof -
  show "launchServer L I bt = throw (Error ''VSCODE_REMOTE_SERVER_PATH env variable not provided'')"
  proof (cases "map_of (process_env I) ''VSCODE_REMOTE_SERVER_PATH''")
    case None
    then show ?thesis by (simp only: launchServer_def option.case)
  next
    case (Some p)
    with assms have "p = []" by (simp add: truthy_def)
    with Some show ?thesis by (simp only: launchServer_def option.case if_True simp_thms)
  qed
  show "launchServer_lib L I bt = throw (Error ''VSCODE_REMOTE_SERVER_PATH env variable not provided'')"
  proof (cases "map_of (process_env I) ''VSCODE_REMOTE_SERVER_PATH''")
    case None
    then show ?thesis by (simp only: launchServer_lib_def option.case)
  next
    case (Some p)
    with assms have "p = []" by (simp add: truthy_def)
    with Some show ?thesis by (simp only: launchServer_lib_def option.case if_True simp_thms)
  qed
qed

lemma launchServer_lib_run:
  assumes "map_of (process_env I) ''VSCODE_REMOTE_SERVER_PATH'' = Some serverPath"
      and "serverPath \<noteq> []"
  shows "launchServer_lib L I bt =
     (Returned \<lparr>pid = spawn_pid I\<rparr>,
      [TmpDirSync ''t'',
       ProcessOnce ''exit'' (RemoveTestData (tmp_dirSync_name I)),
       Spawn (path_join L [serverPath,
                ''server.'' @ (if process_platform I = ''win32'' then ''cmd'' else ''sh'')])
         [''--browser'', ''none'', ''--driver'', ''web'', ''--enable-proposed-api'',
          ''--disable-telemetry'']
         (spread [(''VSCODE_AGENT_FOLDER'', path_join L [tmp_dirSync_name I, ''d'']),
                  (''VSCODE_BROWSER'', browser_name bt)] (process_env I))
         [Ignore, Pipe, Ignore],
       ProcessOn ''exit'' (KillServer (spawn_pid I)),
       ProcessOn ''SIGINT'' (KillServer (spawn_pid I)),
       ProcessOn ''SIGTERM'' (KillServer (spawn_pid I)),
       StdoutOn ''data'' ScanForEndpoint])"
proof -
  have b: "block [emit e1, emit e2, emit e3, emit e4, emit e5, emit e6, emit e7]
      = (Returned (), [e1, e2, e3, e4, e5, e6, e7])" for e1 e2 e3 e4 e5 e6 e7
    using block_emits [of "[e1, e2, e3, e4, e5, e6, e7]"] by simp
  show ?thesis
    unfolding launchServer_lib_def assms(1) option.case Let_def b
    using assms(2) by (simp add: bind_io_def return_io_def)
qed

lemma launchServer_run:
  assumes "map_of (process_env I) ''VSCODE_REMOTE_SERVER_PATH'' = Some serverPath"
      and "serverPath \<noteq> []"
      and "product_serverApplicationName I = Inr serverApplicationName"
  shows "launchServer L I bt =
     (Returned \<lparr>pid = spawn_pid I\<rparr>,
      [TmpDirSync ''t'',
       ProcessOnce ''exit'' (RemoveTestData (tmp_dirSync_name I)),
       Require (path_join L [serverPath, ''product.json'']),
       Spawn (path_join L [serverPath, ''bin'',
                serverApplicationName @ (if process_platform I = ''win32'' then ''.cmd'' else [])])
         [''--driver'', ''web'', ''--enable-proposed-api'', ''--disable-telemetry'',
          ''--server-data-dir'', path_join L [tmp_dirSync_name I, ''d'']]
         (spread [(''VSCODE_BROWSER'', browser_name bt)] (process_env I))
         (if argv_debug I then [Pipe, Pipe, Pipe] else [Ignore, Pipe, Ignore])]
      @ (if argv_debug I then [StderrOn ''data'' EchoStderr, StdoutOn ''data'' EchoStdout] else [])
      @ [ProcessOn ''exit'' (KillServer (spawn_pid I)),
         ProcessOn ''SIGINT'' (KillServerAndExit (spawn_pid I) 130),
         ProcessOn ''SIGTERM'' (KillServerAndExit (spawn_pid I) 143),
         StdoutOn ''data'' ScanForEndpoint])"
proof -
  have b3: "block [emit e1, emit e2, emit e3] = (Returned (), [e1, e2, e3])" for e1 e2 e3
    using block_emits [of "[e1, e2, e3]"] by simp
  have b2: "block [emit e1, emit e2] = (Returned (), [e1, e2])" for e1 e2
    using block_emits [of "[e1, e2]"] by simp
  have b6: "block [emit e1, m, emit e3, emit e4, emit e5, emit e6]
      = (Returned (), e1 # snd m @ [e3, e4, e5, e6])" if "fst m = Returned ()" for e1 m e3 e4 e5 e6
    using that by (simp add: bind_io_def emit_def skip_def)
  have m: "fst (if argv_debug I
                then block [emit (StderrOn ''data'' EchoStderr), emit (StdoutOn ''data'' EchoStdout)]
                else skip) = Returned ()"
    by (simp del: block.simps(2) add: b2)
  show ?thesis
    unfolding launchServer_def assms(1) option.case Let_def b3 b6 [OF m] assms(3) sum.case
    using assms(2) by (simp del: block.simps(2) add: bind_io_def return_io_def b2)
qed

text \<open>
  In \<^verbatim>\<open>src/index.ts\<close> a \<^verbatim>\<open>SIGINT\<close> or \<^verbatim>\<open>SIGTERM\<close> delivered after the server was
  launched kills the child and ends the process with code 130 or 143 (lines 176 to 183).
\<close>

lemma sigint_sigterm_refined:
  assumes "map_of (process_env I) ''VSCODE_REMOTE_SERVER_PATH'' = Some serverPath"
      and "serverPath \<noteq> []"
      and "product_serverApplicationName I = Inr serverApplicationName"
  shows "process_emit ''SIGINT'' (snd (launchServer L I bt))
           = (Exited 130, [ChildKill (spawn_pid I), ProcessExit 130])"
    and "process_emit ''SIGTERM'' (snd (launchServer L I bt))
           = (Exited 143, [ChildKill (spawn_pid I), ProcessExit 143])"
  unfolding launchServer_run [OF assms]
  by (simp_all add: process_emit_def bind_io_def emit_def process_exit_def exit_status_def skip_def)

text \<open>
  Claim C2 fails on \<^verbatim>\<open>lib/index.ts\<close>. The listeners it registers for \<^verbatim>\<open>SIGINT\<close> and
  \<^verbatim>\<open>SIGTERM\<close> (lines 152 and 153) only call \<^verbatim>\<open>serverProcess.kill()\<close> and return: no
  \<^verbatim>\<open>process.exit\<close> follows, so the harness does not end the process with code 130 or 143.
\<close>

theorem signal_listeners_lib_only_kill:
  assumes "map_of (process_env I) ''VSCODE_REMOTE_SERVER_PATH'' = Some serverPath"
      and "serverPath \<noteq> []"
  shows "process_emit ''SIGINT'' (snd (launchServer_lib L I bt))
           = (Returned (), [ChildKill (spawn_pid I)])
       \<and> process_emit ''SIGTERM'' (snd (launchServer_lib L I bt))
           = (Returned (), [ChildKill (spawn_pid I)])"
  unfolding launchServer_lib_run [OF assms]
  by (simp add: process_emit_def bind_io_def emit_def skip_def)

text \<open>The worked invocation, after the launch: the listeners of both variants.\<close>

theorem signal_listeners_lib_only_kill_witness:
  "map_of (process_env example_invocation) ''VSCODE_REMOTE_SERVER_PATH'' = Some ''/opt/server''
   \<and> ''/opt/server'' \<noteq> []
   \<and> process_emit ''SIGINT'' (snd (launchServer_lib node_at_examples example_invocation chromium))
       = (Returned (), [ChildKill 4242])
   \<and> process_emit ''SIGTERM'' (snd (launchServer_lib node_at_examples example_invocation chromium))
       = (Returned (), [ChildKill 4242])
   \<and> process_emit ''SIGINT'' (snd (launchServer node_at_examples example_invocation chromium))
       = (Exited 130, [ChildKill 4242, ProcessExit 130])"
proof -
  have h: "map_of (process_env example_invocation) ''VSCODE_REMOTE_SERVER_PATH'' = Some ''/opt/server''"
    "''/opt/server'' \<noteq> []"
    "product_serverApplicationName example_invocation = Inr ''code-server''"
    by (simp_all add: example_invocation_def)
  have p: "spawn_pid example_invocation = 4242"
    by (simp add: example_invocation_def)
  show ?thesis
    using h(1,2) signal_listeners_lib_only_kill [OF h(1,2), of node_at_examples chromium]
      sigint_sigterm_refined(1) [OF h, of node_at_examples chromium]
    by (simp add: p)
qed

subsection \<open>The order of a browser session\<close>

lemma takeWhile_no_goto:
  "\<forall>e \<in> set P. \<not> is_goto e \<Longrightarrow> before_navigation (P @ X) = P @ before_navigation X"
  by (simp add: before_navigation_def takeWhile_append2)

lemma session_order:
  assumes ck: "snd ck = [] \<or> (\<exists>c. snd ck = [AddCookies c])"
      and nav: "(\<exists>err. nav = throw err) \<or> (\<exists>u. nav = await rej (Goto u))"
      and tr: "tr = snd (block
       [await rej (Launch bt True),
        await rej NewContext,
        ck,
        await rej NewPage,
        await rej (SetViewportSize width height),
        emit (PageOn ''pageerror''),
        emit (PageOn ''crash''),
        emit (PageOn ''response''),
        emit (PageOn ''console''),
        emit (PageOn ''requestfailed''),
        nav,
        await rej (ExposeFunction ''codeAutomationLog'' LogFn),
        await rej (ExposeFunction ''codeAutomationExit'' (ExitFn srv))])"
  shows "(list_ex is_goto tr \<longrightarrow> relay_installed_before_navigation tr)
       \<and> (ExposeFunction n f \<in> set tr \<longrightarrow>
            (\<exists>u. Goto u \<in> set tr \<and> rej (Goto u) = None)
            \<and> ExposeFunction n f \<notin> set (before_navigation tr))"
proof -
  define first5 where "first5 = [await rej (Launch bt True), await rej NewContext, ck,
    await rej NewPage, await rej (SetViewportSize width height)]"
  define subs where "subs = map PageOn relay_events"
  define bridge where "bridge = snd (block
    [await rej (ExposeFunction ''codeAutomationLog'' LogFn),
     await rej (ExposeFunction ''codeAutomationExit'' (ExitFn srv))])"
  define P where "P = snd (block first5)"
  have "set P \<subseteq> (\<Union>s \<in> set first5. set (snd s))"
    unfolding P_def by (rule snd_block_subset)
  with ck have P: "\<forall>e \<in> set P. \<not> is_goto e \<and> e \<noteq> ExposeFunction n f"
    by (auto simp: first5_def)
  have split: "tr = snd (block (first5 @
        [emit (PageOn ''pageerror''), emit (PageOn ''crash''), emit (PageOn ''response''),
         emit (PageOn ''console''), emit (PageOn ''requestfailed''), nav,
         await rej (ExposeFunction ''codeAutomationLog'' LogFn),
         await rej (ExposeFunction ''codeAutomationExit'' (ExitFn srv))]))"
    unfolding tr first5_def by (simp only: append.simps)
  have rest: "snd (block
        [emit (PageOn ''pageerror''), emit (PageOn ''crash''), emit (PageOn ''response''),
         emit (PageOn ''console''), emit (PageOn ''requestfailed''), nav,
         await rej (ExposeFunction ''codeAutomationLog'' LogFn),
         await rej (ExposeFunction ''codeAutomationExit'' (ExitFn srv))])
      = subs @ snd nav @ (if fst nav = Returned () then bridge else [])"
    unfolding subs_def bridge_def relay_events_def
    by (simp del: block.simps(2) add: snd_block_Cons)
  have subs: "\<forall>e \<in> set subs. \<not> is_goto e \<and> e \<noteq> ExposeFunction n f"
    by (auto simp: subs_def)
  have bridge: "\<forall>e \<in> set bridge. \<not> is_goto e"
    unfolding bridge_def
    by (auto simp del: block.simps(2) simp: snd_block_Cons split: if_splits)
  have shape: "tr = P \<or> tr = P @ subs
      \<or> (\<exists>u. rej (Goto u) \<noteq> None \<and> tr = P @ subs @ [Goto u])
      \<or> (\<exists>u. rej (Goto u) = None \<and> tr = P @ subs @ Goto u # bridge)"
    using nav unfolding split snd_block_append rest P_def [symmetric]
    by (auto simp: fst_await split: option.splits)
  have before: "before_navigation (P @ subs @ Goto u # X) = P @ subs" for u X
    using P subs by (simp add: before_navigation_def takeWhile_append2 takeWhile_tail)
  have before': "before_navigation (P @ subs) = P @ subs" "before_navigation P = P"
    using P subs by (simp_all add: before_navigation_def)
  have installed: "list_all (\<lambda>name. PageOn name \<in> set (P @ subs)) relay_events"
    by (simp add: subs_def relay_events_def)
  from shape show ?thesis
  proof (elim disjE exE conjE)
    assume "tr = P"
    with P show ?thesis by (auto simp: list_ex_iff)
  next
    assume "tr = P @ subs"
    with P subs show ?thesis by (auto simp: list_ex_iff)
  next
    fix u assume "rej (Goto u) \<noteq> None" "tr = P @ subs @ [Goto u]"
    with P subs installed show ?thesis
      by (auto simp: relay_installed_before_navigation_def before)
  next
    fix u assume "rej (Goto u) = None" "tr = P @ subs @ Goto u # bridge"
    with P subs installed show ?thesis
      by (auto simp: relay_installed_before_navigation_def before)
  qed
qed

lemma add_auth_cookie_events:
  "snd (add_auth_cookie L rej I) = [] \<or> (\<exists>c. snd (add_auth_cookie L rej I) = [AddCookies c])"
  by (simp add: add_auth_cookie_def split: sum.splits option.splits)

lemma add_auth_cookie_lib_events:
  "snd (add_auth_cookie_lib L rej I) = []
     \<or> (\<exists>c. snd (add_auth_cookie_lib L rej I) = [AddCookies c])"
  by (simp add: add_auth_cookie_lib_def split: sum.splits option.splits)

lemma no_cookie_refined:
  assumes "\<not> truthy (argv_authCookie I)" "\<not> truthy (map_of (process_env I) ''AUTH_COOKIE'')"
  shows "add_auth_cookie L rej I = skip"
  using assms by (simp add: add_auth_cookie_def getAuthCookie_def or_else_def)

lemma no_cookie_lib:
  assumes "\<not> truthy (map_of (process_env I) ''AUTH_COOKIE'')"
  shows "add_auth_cookie_lib L rej I = skip"
  using assms by (simp add: add_auth_cookie_lib_def)

lemma navigation_url_Inr:
  assumes "file_uri_path L (argv_workspacePath I) = Inr w"
      and "file_uri_path L (argv_extensionDevelopmentPath I) = Inr x"
      and "file_uri_path L (argv_extensionTestsPath I) = Inr t"
  shows "navigation_url L I ep =
           Inr (href ep @ ''&''
                @ (if path_extname L w = ''.code-workspace'' then ''workspace'' else ''folder'')
                @ ''='' @ w @ ''&payload=''
                @ payloadParam (url_format L x protocol (host ep) True)
                    (url_format L t protocol (host ep) True))"
  using assms by (simp add: navigation_url_def)

lemma navigation_url_lib_Inr:
  assumes "file_uri_path L (argv_workspacePath I) = Inr w"
      and "file_uri_path L (argv_extensionDevelopmentPath I) = Inr x"
      and "file_uri_path L (argv_extensionTestsPath I) = Inr t"
  shows "navigation_url_lib L I ep =
           Inr (href ep @ ''?''
                @ (if path_extname L (url_format L w protocol (host ep) True) = ''.code-workspace''
                   then ''workspace'' else ''folder'')
                @ ''='' @ url_format L w protocol (host ep) True @ ''&payload=''
                @ payloadParam_lib (url_format L x protocol (host ep) True)
                    (url_format L t protocol (host ep) True))"
  using assms by (simp add: navigation_url_lib_def)

lemma example_paths:
  "file_uri_path node_at_examples (argv_workspacePath example_invocation)
     = Inr ''/ws/demo.code-workspace''"
  "file_uri_path node_at_examples (argv_extensionDevelopmentPath example_invocation) = Inr ''/ext''"
  "file_uri_path node_at_examples (argv_extensionTestsPath example_invocation)
     = Inr ''/ext/out/test''"
  by (simp_all add: file_uri_path_def node_at_examples_def example_invocation_def)

lemma posix_extname_examples:
  "posix_extname ''/ws/demo.code-workspace'' = ''.code-workspace''"
  "posix_extname ''vscode-remote://127.0.0.1:9999/ws/demo.code-workspace'' = ''.code-workspace''"
  "posix_extname ''/'' = []"
  "posix_extname ''vscode-remote://a.code-workspace/'' = ''.code-workspace''"
  by code_simp+

lemma example_no_cookie:
  "\<not> truthy (argv_authCookie example_invocation)"
  "\<not> truthy (map_of (process_env example_invocation) ''AUTH_COOKIE'')"
  by (simp_all add: truthy_def example_invocation_def)

text \<open>A session in which every call into the browser succeeds.\<close>

lemma session_all_resolve:
  assumes "ck = (Returned (), C)" and "nav = await (\<lambda>e. None) (Goto u)"
  shows "block
       [await (\<lambda>e. None) (Launch bt True),
        await (\<lambda>e. None) NewContext,
        ck,
        await (\<lambda>e. None) NewPage,
        await (\<lambda>e. None) (SetViewportSize width height),
        emit (PageOn ''pageerror''),
        emit (PageOn ''crash''),
        emit (PageOn ''response''),
        emit (PageOn ''console''),
        emit (PageOn ''requestfailed''),
        nav,
        await (\<lambda>e. None) (ExposeFunction ''codeAutomationLog'' LogFn),
        await (\<lambda>e. None) (ExposeFunction ''codeAutomationExit'' (ExitFn srv))]
     = (Returned (),
        [Launch bt True, NewContext] @ C
        @ [NewPage, SetViewportSize width height,
           PageOn ''pageerror'', PageOn ''crash'', PageOn ''response'', PageOn ''console'',
           PageOn ''requestfailed'', Goto u,
           ExposeFunction ''codeAutomationLog'' LogFn,
           ExposeFunction ''codeAutomationExit'' (ExitFn srv)])"
  unfolding assms by (simp add: bind_io_def await_def emit_def skip_def)

lemma example_session_trace:
  "\<exists>u. example_session = (Returned (),
        [Launch chromium True, NewContext, NewPage, SetViewportSize width height,
         PageOn ''pageerror'', PageOn ''crash'', PageOn ''response'', PageOn ''console'',
         PageOn ''requestfailed'', Goto u,
         ExposeFunction ''codeAutomationLog'' LogFn,
         ExposeFunction ''codeAutomationExit'' (ExitFn None)])"
proof -
  obtain u where u: "navigation_url node_at_examples example_invocation example_endpoint = Inr u"
    using navigation_url_Inr [OF example_paths] by blast
  have ck: "add_auth_cookie node_at_examples (\<lambda>e. None) example_invocation = (Returned (), [])"
    using no_cookie_refined [OF example_no_cookie] by (simp add: skip_def)
  show ?thesis
    unfolding example_session_def runTestsInBrowser_def u sum.case
    using session_all_resolve [OF ck refl] by (intro exI [of _ u]) simp
qed

lemma example_session_lib_trace:
  "\<exists>u. example_session_lib = (Returned (),
        [Launch chromium True, NewContext, NewPage, SetViewportSize width height,
         PageOn ''pageerror'', PageOn ''crash'', PageOn ''response'', PageOn ''console'',
         PageOn ''requestfailed'', Goto u,
         ExposeFunction ''codeAutomationLog'' LogFn,
         ExposeFunction ''codeAutomationExit'' (ExitFn None)])"
proof -
  obtain u where u: "navigation_url_lib node_at_examples example_invocation example_endpoint = Inr u"
    using navigation_url_lib_Inr [OF example_paths] by blast
  have ck: "add_auth_cookie_lib node_at_examples (\<lambda>e. None) example_invocation = (Returned (), [])"
    using no_cookie_lib [OF example_no_cookie(2)] by (simp add: skip_def)
  show ?thesis
    unfolding example_session_lib_def runTestsInBrowser_lib_def u sum.case
    using session_all_resolve [OF ck refl] by (intro exI [of _ u]) simp
qed

text \<open>
  Claim C3, as stated, fails. In the session of the worked invocation the page is sent to
  its address (the run holds a \<^verbatim>\<open>page.goto\<close>) while neither entry point of the bridge is
  installed: both calls of \<^verbatim>\<open>page.exposeFunction\<close> come after the \<^verbatim>\<open>await page.goto\<close>,
  in \<^verbatim>\<open>src/index.ts\<close> (lines 98 to 108) and in \<^verbatim>\<open>lib/index.ts\<close> (lines 75 to 85).
\<close>

theorem bridge_not_installed_before_navigation:
  "list_ex is_goto (snd example_session)
   \<and> \<not> bridge_installed_before_navigation None (snd example_session)
   \<and> list_ex is_goto (snd example_session_lib)
   \<and> \<not> bridge_installed_before_navigation None (snd example_session_lib)"
proof -
  obtain u where tr: "example_session = (Returned (),
        [Launch chromium True, NewContext, NewPage, SetViewportSize width height,
         PageOn ''pageerror'', PageOn ''crash'', PageOn ''response'', PageOn ''console'',
         PageOn ''requestfailed'', Goto u,
         ExposeFunction ''codeAutomationLog'' LogFn,
         ExposeFunction ''codeAutomationExit'' (ExitFn None)])"
    using example_session_trace by blast
  obtain v where tr_lib: "example_session_lib = (Returned (),
        [Launch chromium True, NewContext, NewPage, SetViewportSize width height,
         PageOn ''pageerror'', PageOn ''crash'', PageOn ''response'', PageOn ''console'',
         PageOn ''requestfailed'', Goto v,
         ExposeFunction ''codeAutomationLog'' LogFn,
         ExposeFunction ''codeAutomationExit'' (ExitFn None)])"
    using example_session_lib_trace by blast
  show ?thesis
    by (simp add: tr tr_lib bridge_installed_before_navigation_def before_navigation_def)
qed

text \<open>
  Claim C3, amended. In every run of either variant, whatever the browser answers: if the
  page is navigated, the five subscriptions of the diagnostics relay (\<^verbatim>\<open>pageerror\<close>,
  \<^verbatim>\<open>crash\<close>, \<^verbatim>\<open>response\<close>, \<^verbatim>\<open>console\<close>, \<^verbatim>\<open>requestfailed\<close>) were installed before
  the navigation began; and an entry point of the bridge is installed only after the
  navigation: a run that exposes \<^verbatim>\<open>codeAutomationLog\<close> or \<^verbatim>\<open>codeAutomationExit\<close> has
  called \<^verbatim>\<open>page.goto\<close> before, and that call has resolved.
\<close>

theorem relay_before_bridge_after_navigation:
  "(list_ex is_goto (snd (runTestsInBrowser L rej I bt ep srv))
      \<longrightarrow> relay_installed_before_navigation (snd (runTestsInBrowser L rej I bt ep srv)))
   \<and> (ExposeFunction n f \<in> set (snd (runTestsInBrowser L rej I bt ep srv))
      \<longrightarrow> (\<exists>u. Goto u \<in> set (snd (runTestsInBrowser L rej I bt ep srv)) \<and> rej (Goto u) = None)
          \<and> ExposeFunction n f \<notin> set (before_navigation (snd (runTestsInBrowser L rej I bt ep srv))))
   \<and> (list_ex is_goto (snd (runTestsInBrowser_lib L rej I bt ep srv))
      \<longrightarrow> relay_installed_before_navigation (snd (runTestsInBrowser_lib L rej I bt ep srv)))
   \<and> (ExposeFunction n f \<in> set (snd (runTestsInBrowser_lib L rej I bt ep srv))
      \<longrightarrow> (\<exists>u. Goto u \<in> set (snd (runTestsInBrowser_lib L rej I bt ep srv)) \<and> rej (Goto u) = None)
          \<and> ExposeFunction n f
               \<notin> set (before_navigation (snd (runTestsInBrowser_lib L rej I bt ep srv))))"
proof -
  have nav: "(\<exists>err. (case navigation_url L I ep of
                        Inl err \<Rightarrow> throw err | Inr address \<Rightarrow> await rej (Goto address)) = throw err)
           \<or> (\<exists>u. (case navigation_url L I ep of
                        Inl err \<Rightarrow> throw err | Inr address \<Rightarrow> await rej (Goto address))
                   = await rej (Goto u))"
    by (cases "navigation_url L I ep") auto
  have nav_lib: "(\<exists>err. (case navigation_url_lib L I ep of
                        Inl err \<Rightarrow> throw err | Inr address \<Rightarrow> await rej (Goto address)) = throw err)
           \<or> (\<exists>u. (case navigation_url_lib L I ep of
                        Inl err \<Rightarrow> throw err | Inr address \<Rightarrow> await rej (Goto address))
                   = await rej (Goto u))"
    by (cases "navigation_url_lib L I ep") auto
  show ?thesis
    unfolding runTestsInBrowser_def runTestsInBrowser_lib_def
    using session_order [OF add_auth_cookie_events nav refl]
          session_order [OF add_auth_cookie_lib_events nav_lib refl]
    by blast
qed

text \<open>The session of the worked invocation navigates, and exposes the exit entry point
  afterwards.\<close>

theorem relay_before_bridge_after_navigation_witness:
  "list_ex is_goto (snd example_session)
   \<and> relay_installed_before_navigation (snd example_session)
   \<and> ExposeFunction ''codeAutomationExit'' (ExitFn None) \<in> set (snd example_session)
   \<and> ExposeFunction ''codeAutomationExit'' (ExitFn None)
        \<notin> set (before_navigation (snd example_session))"
proof -
  obtain u where tr: "example_session = (Returned (),
        [Launch chromium True, NewContext, NewPage, SetViewportSize width height,
         PageOn ''pageerror'', PageOn ''crash'', PageOn ''response'', PageOn ''console'',
         PageOn ''requestfailed'', Goto u,
         ExposeFunction ''codeAutomationLog'' LogFn,
         ExposeFunction ''codeAutomationExit'' (ExitFn None)])"
    using example_session_trace by blast
  have g: "list_ex is_goto (snd example_session)"
    and e: "ExposeFunction ''codeAutomationExit'' (ExitFn None) \<in> set (snd example_session)"
    by (simp_all add: tr)
  show ?thesis
    using g e
      relay_before_bridge_after_navigation [of node_at_examples "\<lambda>e. None" example_invocation
        chromium example_endpoint None "''codeAutomationExit''" "ExitFn None"]
    unfolding example_session_def [symmetric]
    by blast
qed

subsection \<open>Launching without a server path\<close>

lemma serverPromise_without_endpoint:
  assumes "\<not> truthy (argv_endpoint I)"
  shows "serverPromise L I chunks =
           bind_io (launchServer L I (argv_browser I))
             (\<lambda>serverProcess.
                bind_io (echo_stdout I chunks)
                  (\<lambda>_. case stdout_data L serverProcess None chunks of
                          None \<Rightarrow> (Pending, [])
                        | Some r \<Rightarrow> return_io r))"
    and "serverPromise_lib L I chunks =
           bind_io (launchServer_lib L I (argv_browser I))
             (\<lambda>serverProcess.
                case stdout_data L serverProcess None chunks of
                  None \<Rightarrow> (Pending, [])
                | Some r \<Rightarrow> return_io r)"
  using assms
  by (cases "argv_endpoint I"; simp add: serverPromise_def serverPromise_lib_def truthy_def)+

text \<open>
  Claim C4. When no endpoint flag is given and \<^verbatim>\<open>VSCODE_REMOTE_SERVER_PATH\<close> is unset (or
  empty), \<^verbatim>\<open>launchServer\<close> rejects with the error
  \<^verbatim>\<open>VSCODE_REMOTE_SERVER_PATH env variable not provided\<close>; the rejection handler at the
  top level prints it on \<^verbatim>\<open>console.error\<close> and calls \<^verbatim>\<open>process.exit(1)\<close>. These two calls
  are the whole run: no process is spawned. (A run with the help flag ends before, with
  code 0.)
\<close>

theorem launch_without_server_path_exits_1:
  assumes "\<not> argv_help I" "\<not> truthy (argv_endpoint I)"
    "\<not> truthy (map_of (process_env I) ''VSCODE_REMOTE_SERVER_PATH'')"
  shows "main L rej I chunks = (Exited 1,
           [Console ''error'' [Err (Error ''VSCODE_REMOTE_SERVER_PATH env variable not provided'')],
            ProcessExit 1])
       \<and> \<not> list_ex is_spawn (snd (main L rej I chunks))
       \<and> main_lib L rej I chunks = (Exited 1,
           [Console ''error'' [Err (Error ''VSCODE_REMOTE_SERVER_PATH env variable not provided'')],
            ProcessExit 1])
       \<and> \<not> list_ex is_spawn (snd (main_lib L rej I chunks))"
  using assms(1)
  by (simp add: main_def main_lib_def serverPromise_without_endpoint [OF assms(2)]
      launchServer_no_path [OF assms(3)] promise_then_def bind_io_def
      throw_def emit_def process_exit_def exit_status_def skip_def)

text \<open>The worked invocation with an empty environment.\<close>

theorem launch_without_server_path_exits_1_witness:
  "\<not> argv_help (example_invocation\<lparr>process_env := []\<rparr>)
   \<and> \<not> truthy (argv_endpoint (example_invocation\<lparr>process_env := []\<rparr>))
   \<and> \<not> truthy (map_of (process_env (example_invocation\<lparr>process_env := []\<rparr>))
          ''VSCODE_REMOTE_SERVER_PATH'')
   \<and> main node_at_examples (\<lambda>e. None) (example_invocation\<lparr>process_env := []\<rparr>) []
       = (Exited 1,
          [Console ''error'' [Err (Error ''VSCODE_REMOTE_SERVER_PATH env variable not provided'')],
           ProcessExit 1])
   \<and> main_lib node_at_examples (\<lambda>e. None) (example_invocation\<lparr>process_env := []\<rparr>) []
       = (Exited 1,
          [Console ''error'' [Err (Error ''VSCODE_REMOTE_SERVER_PATH env variable not provided'')],
           ProcessExit 1])"
proof -
  have h: "\<not> argv_help (example_invocation\<lparr>process_env := []\<rparr>)"
    "\<not> truthy (argv_endpoint (example_invocation\<lparr>process_env := []\<rparr>))"
    "\<not> truthy (map_of (process_env (example_invocation\<lparr>process_env := []\<rparr>))
          ''VSCODE_REMOTE_SERVER_PATH'')"
    by (simp_all add: example_invocation_def truthy_def)
  show ?thesis
    using h launch_without_server_path_exits_1 [OF h, of node_at_examples "\<lambda>e. None" "[]"]
    by blast
qed

subsection \<open>The query keys of the address\<close>

lemma sublist_append_sep:
  assumes "t \<noteq> []" and "c \<notin> set (tl t)"
  shows "sublist t (a @ c # r) \<longleftrightarrow> sublist t a \<or> sublist t (c # r)"
proof
  assume "sublist t (a @ c # r)"
  then consider "sublist t a" | "sublist t (c # r)"
    | t1 t2 where "t = t1 @ t2" "suffix t1 a" "prefix t2 (c # r)"
    by (auto simp: sublist_append)
  then show "sublist t a \<or> sublist t (c # r)"
  proof cases
    case 3
    show ?thesis
    proof (cases t1)
      case Nil
      with 3 show ?thesis by auto
    next
      case (Cons y ys)
      show ?thesis
      proof (cases t2)
        case Nil
        with 3 show ?thesis by auto
      next
        case (Cons z zs)
        with 3(3) have "z = c" by simp
        with 3(1) \<open>t1 = y # ys\<close> Cons have "c \<in> set (tl t)" by simp
        with assms(2) show ?thesis by simp
      qed
    qed
  qed auto
next
  assume "sublist t a \<or> sublist t (c # r)"
  then show "sublist t (a @ c # r)"
    by (auto simp: sublist_append)
qed

lemma sublist_Cons_skip:
  assumes "t \<noteq> []" and "hd t \<noteq> c"
  shows "sublist t (c # r) \<longleftrightarrow> sublist t r"
  using assms by (cases t) (auto simp: sublist_Cons_right)

lemma payloadParam_token:
  assumes "t \<noteq> []" "hd t = CHR ''&'' \<or> hd t = CHR ''?''" "CHR 0x22 \<notin> set (tl t)"
  shows "sublist t (payloadParam X T) \<longleftrightarrow> sublist t X \<or> sublist t T"
    and "sublist t (payloadParam_lib X T) \<longleftrightarrow> sublist t X \<or> sublist t T"
proof -
  have skip: "sublist t (c # r) \<longleftrightarrow> sublist t r" if "c \<noteq> CHR ''&''" "c \<noteq> CHR ''?''" for c r
    using assms(1,2) that by (intro sublist_Cons_skip) auto
  have sep: "sublist t (a @ CHR 0x22 # r) \<longleftrightarrow> sublist t a \<or> sublist t (CHR 0x22 # r)" for a r
    using assms(1,3) by (rule sublist_append_sep)
  show "sublist t (payloadParam X T) \<longleftrightarrow> sublist t X \<or> sublist t T"
    unfolding payloadParam_def using assms(1) by (simp add: skip sep)
  show "sublist t (payloadParam_lib X T) \<longleftrightarrow> sublist t X \<or> sublist t T"
    unfolding payloadParam_lib_def using assms(1) by (simp add: skip sep)
qed

lemma address_token_aux:
  assumes ne: "t \<noteq> []" and hd: "hd t = CHR ''&'' \<or> hd t = CHR ''?''"
      and tl: "CHR ''&'' \<notin> set (tl t)" "CHR ''?'' \<notin> set (tl t)"
      and np: "\<not> prefix t (''&payload='' @ P)"
      and key: "key = ''workspace'' \<or> key = ''folder''"
      and sep: "sep = CHR ''&'' \<or> sep = CHR ''?''"
      and pl: "sublist t P \<longleftrightarrow> sublist t X \<or> sublist t T"
  shows "sublist t (h @ sep # key @ ''='' @ w @ ''&payload='' @ P)
           \<longleftrightarrow> sublist t h \<or> prefix t (sep # key @ ''='' @ w @ ''&payload='' @ P)
               \<or> sublist t w \<or> sublist t X \<or> sublist t T"
proof -
  have skip: "sublist t (c # r) \<longleftrightarrow> sublist t r" if "c \<noteq> CHR ''&''" "c \<noteq> CHR ''?''" for c r
    using ne hd that by (intro sublist_Cons_skip) auto
  have "sep \<notin> set (tl t)" using sep tl by auto
  then have 1: "sublist t (h @ sep # key @ ''='' @ w @ ''&payload='' @ P)
      \<longleftrightarrow> sublist t h \<or> sublist t (sep # key @ ''='' @ w @ ''&payload='' @ P)"
    using ne by (intro sublist_append_sep)
  have 2: "sublist t (sep # key @ ''='' @ w @ ''&payload='' @ P)
      \<longleftrightarrow> prefix t (sep # key @ ''='' @ w @ ''&payload='' @ P)
          \<or> sublist t (key @ ''='' @ w @ ''&payload='' @ P)"
    by (rule sublist_Cons_right)
  have 3: "sublist t (key @ ''='' @ w @ ''&payload='' @ P) \<longleftrightarrow> sublist t (w @ ''&payload='' @ P)"
  proof -
    have "sublist t (''workspace'' @ ''='' @ w @ ''&payload='' @ P) \<longleftrightarrow> sublist t (w @ ''&payload='' @ P)"
      by (simp add: skip)
    moreover have "sublist t (''folder'' @ ''='' @ w @ ''&payload='' @ P) \<longleftrightarrow> sublist t (w @ ''&payload='' @ P)"
      by (simp add: skip)
    ultimately show ?thesis using key by blast
  qed
  have 4: "sublist t (w @ ''&payload='' @ P) \<longleftrightarrow> sublist t w \<or> sublist t (''&payload='' @ P)"
    using sublist_append_sep [OF ne tl(1), of w "''payload='' @ P"] by simp
  have "sublist t (''&payload='' @ P) \<longleftrightarrow> prefix t (''&payload='' @ P) \<or> sublist t (''payload='' @ P)"
    using sublist_Cons_right [of t "CHR ''&''" "''payload='' @ P"] by simp
  moreover have "sublist t (''payload='' @ P) \<longleftrightarrow> sublist t P"
    by (simp add: skip)
  ultimately have 5: "sublist t (''&payload='' @ P) \<longleftrightarrow> sublist t P"
    using np by blast
  show ?thesis
    unfolding 1 2 3 4 5 pl by blast
qed

lemma address_keys:
  assumes key: "key = ''workspace'' \<or> key = ''folder''"
      and sep: "sep = CHR ''&'' \<or> sep = CHR ''?''"
      and pl: "P = payloadParam X T \<or> P = payloadParam_lib X T"
      and free: "free_of_keys h" "free_of_keys w" "free_of_keys X" "free_of_keys T"
      and k': "k' = ''workspace'' \<or> k' = ''folder''"
  shows "query_key k' (h @ sep # key @ ''='' @ w @ ''&payload='' @ P) \<longleftrightarrow> k' = key"
proof -
  let ?u = "h @ sep # key @ ''='' @ w @ ''&payload='' @ P"
  have tok: "sublist t ?u \<longleftrightarrow> prefix t (sep # key @ ''='' @ w @ ''&payload='' @ P)"
    if t: "t = s # k' @ ''=''" "s = CHR ''&'' \<or> s = CHR ''?''" for t s
  proof -
    have ne: "t \<noteq> []" and hd: "hd t = CHR ''&'' \<or> hd t = CHR ''?''"
      using t by simp_all
    have tl: "CHR ''&'' \<notin> set (tl t)" "CHR ''?'' \<notin> set (tl t)" "CHR 0x22 \<notin> set (tl t)"
      using t(1) k' by auto
    have np: "\<not> prefix t (''&payload='' @ P)"
      using t(1) k' by auto
    have plt: "sublist t P \<longleftrightarrow> sublist t X \<or> sublist t T"
      using pl payloadParam_token [OF ne hd tl(3)] by blast
    have "\<not> sublist t h" "\<not> sublist t w" "\<not> sublist t X" "\<not> sublist t T"
      using free t k' unfolding free_of_keys_def query_key_def by auto
    then show ?thesis
      using address_token_aux [OF ne hd tl(1,2) np key sep plt, of h w] by blast
  qed
  have "query_key k' ?u \<longleftrightarrow>
      prefix (CHR ''&'' # k' @ ''='') (sep # key @ ''='' @ w @ ''&payload='' @ P)
      \<or> prefix (CHR ''?'' # k' @ ''='') (sep # key @ ''='' @ w @ ''&payload='' @ P)"
    unfolding query_key_def using tok [of _ "CHR ''&''"] tok [of _ "CHR ''?''"] by simp
  also have "\<dots> \<longleftrightarrow> k' = key"
    using k' key sep by auto
  finally show ?thesis .
qed

text \<open>
  Take an input as valid when the three path flags are given and none of the texts the
  address is assembled from (the \<^verbatim>\<open>href\<close> of the endpoint, the workspace path or URI, and
  the URIs \<^verbatim>\<open>url.format\<close> returns for the extension and its tests) brings a query key
  \<^verbatim>\<open>folder\<close> or \<^verbatim>\<open>workspace\<close> of its own. On every valid input the address of
  \<^verbatim>\<open>src/index.ts\<close> carries exactly one of the two keys: \<^verbatim>\<open>workspace\<close> exactly when the
  file extension of the workspace path is \<^verbatim>\<open>.code-workspace\<close>, and \<^verbatim>\<open>folder\<close> otherwise.
\<close>

lemma query_key_by_path_extension:
  assumes paths: "file_uri_path L (argv_workspacePath I) = Inr w"
        "file_uri_path L (argv_extensionDevelopmentPath I) = Inr x"
        "file_uri_path L (argv_extensionTestsPath I) = Inr t"
      and uris: "testExtensionUri = url_format L x protocol (host ep) True"
        "testFilesUri = url_format L t protocol (host ep) True"
      and valid: "free_of_keys (href ep)" "free_of_keys w"
        "free_of_keys testExtensionUri" "free_of_keys testFilesUri"
  shows "\<exists>u. navigation_url L I ep = Inr u
            \<and> query_key ''workspace'' u = (path_extname L w = ''.code-workspace'')
            \<and> query_key ''folder'' u = (path_extname L w \<noteq> ''.code-workspace'')"
proof -
  let ?key = "if path_extname L w = ''.code-workspace'' then ''workspace'' else ''folder''"
  have key: "?key = ''workspace'' \<or> ?key = ''folder''" by simp
  let ?u = "href ep @ CHR ''&'' # ?key @ ''='' @ w @ ''&payload=''
              @ payloadParam testExtensionUri testFilesUri"
  have u: "navigation_url L I ep = Inr ?u"
    using navigation_url_Inr [OF paths, of ep] unfolding uris by simp
  have "query_key k' ?u \<longleftrightarrow> k' = ?key" if "k' = ''workspace'' \<or> k' = ''folder''" for k'
    using address_keys [OF key _ _ valid that, of "CHR ''&''"] by blast
  from this [of "''workspace''"] this [of "''folder''"]
  have "query_key ''workspace'' ?u = (path_extname L w = ''.code-workspace'')"
    "query_key ''folder'' ?u = (path_extname L w \<noteq> ''.code-workspace'')"
    by simp_all
  with u show ?thesis
    by blast
qed

text \<open>
  Claim C5 fails on \<^verbatim>\<open>lib/index.ts\<close>. Its address carries exactly one of the two keys on
  every valid input, but line 75 reads the file extension off the workspace URI that
  \<^verbatim>\<open>url.format\<close> returned, host included, and not off the workspace path: the key is
  \<^verbatim>\<open>workspace\<close> exactly when the extension of that URI is \<^verbatim>\<open>.code-workspace\<close>, whatever the
  extension of the path.
\<close>

theorem lib_query_key_by_uri_extension:
  assumes paths: "file_uri_path L (argv_workspacePath I) = Inr w"
        "file_uri_path L (argv_extensionDevelopmentPath I) = Inr x"
        "file_uri_path L (argv_extensionTestsPath I) = Inr t"
      and uris: "testWorkspaceUri = url_format L w protocol (host ep) True"
        "testExtensionUri = url_format L x protocol (host ep) True"
        "testFilesUri = url_format L t protocol (host ep) True"
      and valid: "free_of_keys (href ep)" "free_of_keys testWorkspaceUri"
        "free_of_keys testExtensionUri" "free_of_keys testFilesUri"
  shows "\<exists>u. navigation_url_lib L I ep = Inr u
            \<and> query_key ''workspace'' u = (path_extname L testWorkspaceUri = ''.code-workspace'')
            \<and> query_key ''folder'' u = (path_extname L testWorkspaceUri \<noteq> ''.code-workspace'')"
proof -
  let ?key = "if path_extname L testWorkspaceUri = ''.code-workspace''
              then ''workspace'' else ''folder''"
  have key: "?key = ''workspace'' \<or> ?key = ''folder''" by simp
  let ?u = "href ep @ CHR ''?'' # ?key @ ''='' @ testWorkspaceUri @ ''&payload=''
              @ payloadParam_lib testExtensionUri testFilesUri"
  have u: "navigation_url_lib L I ep = Inr ?u"
    using navigation_url_lib_Inr [OF paths, of ep] unfolding uris by simp
  have "query_key k' ?u \<longleftrightarrow> k' = ?key" if "k' = ''workspace'' \<or> k' = ''folder''" for k'
    using address_keys [OF key _ _ valid that, of "CHR ''?''"] by blast
  from this [of "''workspace''"] this [of "''folder''"]
  have "query_key ''workspace'' ?u = (path_extname L testWorkspaceUri = ''.code-workspace'')"
    "query_key ''folder'' ?u = (path_extname L testWorkspaceUri \<noteq> ''.code-workspace'')"
    by simp_all
  with u show ?thesis
    by blast
qed

lemma free_of_keys_examples:
  "free_of_keys ''http://127.0.0.1:9999/''"
  "free_of_keys ''/ws/demo.code-workspace''"
  "free_of_keys ''vscode-remote://127.0.0.1:9999/ws/demo.code-workspace''"
  "free_of_keys ''vscode-remote://127.0.0.1:9999/ext''"
  "free_of_keys ''vscode-remote://127.0.0.1:9999/ext/out/test''"
  "free_of_keys ''http://a.code-workspace/''"
  "free_of_keys ''/''"
  "free_of_keys ''vscode-remote://a.code-workspace/''"
  "free_of_keys ''vscode-remote://a.code-workspace/ext''"
  "free_of_keys ''vscode-remote://a.code-workspace/ext/out/test''"
  by (simp_all add: free_of_keys_def query_key_def sublist_Cons_right)

lemma root_folder_paths:
  "file_uri_path node_at_examples (argv_workspacePath root_folder_invocation) = Inr ''/''"
  "file_uri_path node_at_examples (argv_extensionDevelopmentPath root_folder_invocation)
     = Inr ''/ext''"
  "file_uri_path node_at_examples (argv_extensionTestsPath root_folder_invocation)
     = Inr ''/ext/out/test''"
  by (simp_all add: file_uri_path_def node_at_examples_def root_folder_invocation_def
      example_invocation_def)

lemma root_folder_uris:
  "''vscode-remote://a.code-workspace/''
     = url_format node_at_examples ''/'' protocol (host named_host_endpoint) True"
  "''vscode-remote://a.code-workspace/ext''
     = url_format node_at_examples ''/ext'' protocol (host named_host_endpoint) True"
  "''vscode-remote://a.code-workspace/ext/out/test''
     = url_format node_at_examples ''/ext/out/test'' protocol (host named_host_endpoint) True"
  by (simp_all add: node_at_examples_def named_host_endpoint_def protocol_def)

text \<open>
  The server runs on the host \<^verbatim>\<open>a.code-workspace\<close> and the workspace path is the root
  folder \<^verbatim>\<open>/\<close>, which has no file extension. The workspace URI is
  \<^verbatim>\<open>vscode-remote://a.code-workspace/\<close>, whose extension is that of the host name:
  \<^verbatim>\<open>lib/index.ts\<close> opens the folder with the key \<^verbatim>\<open>workspace\<close>, as if it were a workspace
  file, and without the key \<^verbatim>\<open>folder\<close>. On the same input \<^verbatim>\<open>src/index.ts\<close> sends the key
  \<^verbatim>\<open>folder\<close>.
\<close>

theorem lib_query_key_by_uri_extension_witness:
  "url_parse node_at_examples ''http://a.code-workspace/'' = named_host_endpoint
   \<and> file_uri_path node_at_examples (argv_workspacePath root_folder_invocation) = Inr ''/''
   \<and> file_uri_path node_at_examples (argv_extensionDevelopmentPath root_folder_invocation)
       = Inr ''/ext''
   \<and> file_uri_path node_at_examples (argv_extensionTestsPath root_folder_invocation)
       = Inr ''/ext/out/test''
   \<and> free_of_keys (href named_host_endpoint)
   \<and> free_of_keys ''/''
   \<and> free_of_keys ''vscode-remote://a.code-workspace/''
   \<and> free_of_keys ''vscode-remote://a.code-workspace/ext''
   \<and> free_of_keys ''vscode-remote://a.code-workspace/ext/out/test''
   \<and> path_extname node_at_examples ''/'' = []
   \<and> path_extname node_at_examples ''vscode-remote://a.code-workspace/'' = ''.code-workspace''
   \<and> navigation_url_lib node_at_examples root_folder_invocation named_host_endpoint
       = Inr (''http://a.code-workspace/?workspace=vscode-remote://a.code-workspace/&payload=''
              @ payloadParam_lib ''vscode-remote://a.code-workspace/ext''
                  ''vscode-remote://a.code-workspace/ext/out/test'')
   \<and> (\<exists>u. navigation_url_lib node_at_examples root_folder_invocation named_host_endpoint = Inr u
          \<and> query_key ''workspace'' u \<and> \<not> query_key ''folder'' u)
   \<and> navigation_url node_at_examples root_folder_invocation named_host_endpoint
       = Inr (''http://a.code-workspace/&folder=/&payload=''
              @ payloadParam ''vscode-remote://a.code-workspace/ext''
                  ''vscode-remote://a.code-workspace/ext/out/test'')
   \<and> (\<exists>u. navigation_url node_at_examples root_folder_invocation named_host_endpoint = Inr u
          \<and> \<not> query_key ''workspace'' u \<and> query_key ''folder'' u)"
proof -
  have p: "url_parse node_at_examples ''http://a.code-workspace/'' = named_host_endpoint"
    by (simp add: node_at_examples_def named_host_endpoint_def)
  have h: "free_of_keys (href named_host_endpoint)"
    using free_of_keys_examples(6) by (simp add: named_host_endpoint_def)
  have e: "path_extname node_at_examples ''/'' = []"
    "path_extname node_at_examples ''vscode-remote://a.code-workspace/'' = ''.code-workspace''"
    by (simp_all add: node_at_examples_def posix_extname_examples)
  have lib: "navigation_url_lib node_at_examples root_folder_invocation named_host_endpoint
       = Inr (''http://a.code-workspace/?workspace=vscode-remote://a.code-workspace/&payload=''
              @ payloadParam_lib ''vscode-remote://a.code-workspace/ext''
                  ''vscode-remote://a.code-workspace/ext/out/test'')"
    unfolding navigation_url_lib_Inr [OF root_folder_paths] root_folder_uris [symmetric] e
    by (simp add: named_host_endpoint_def)
  have refined: "navigation_url node_at_examples root_folder_invocation named_host_endpoint
       = Inr (''http://a.code-workspace/&folder=/&payload=''
              @ payloadParam ''vscode-remote://a.code-workspace/ext''
                  ''vscode-remote://a.code-workspace/ext/out/test'')"
    unfolding navigation_url_Inr [OF root_folder_paths] root_folder_uris [symmetric] e
    by (simp add: named_host_endpoint_def)
  have keys: "\<exists>u. navigation_url node_at_examples root_folder_invocation named_host_endpoint = Inr u
          \<and> \<not> query_key ''workspace'' u \<and> query_key ''folder'' u"
    using query_key_by_path_extension [OF root_folder_paths root_folder_uris(2,3) h
        free_of_keys_examples(7,9,10)] e(1)
    by simp
  have "\<exists>u. navigation_url_lib node_at_examples root_folder_invocation named_host_endpoint = Inr u
          \<and> query_key ''workspace'' u \<and> \<not> query_key ''folder'' u"
    using lib_query_key_by_uri_extension [OF root_folder_paths root_folder_uris h
        free_of_keys_examples(8,9,10)] e(2)
    by simp
  with p h e lib refined keys show ?thesis
    using root_folder_paths free_of_keys_examples(7-10) by simp
qed

subsection \<open>The ready line\<close>

lemma ready_prefix_no_terminator:
  "\<forall>x \<in> set ''Web UI available at ''. \<not> line_terminator x"
  by (simp add: line_terminator_def)

lemma match_Web_UI_here:
  assumes "takeWhile (\<lambda>x. \<not> line_terminator x) r \<noteq> []"
  shows "match_Web_UI (''Web UI available at '' @ r) = Some (takeWhile (\<lambda>x. \<not> line_terminator x) r)"
  using assms by simp

lemma match_Web_UI_Cons:
  "match_Web_UI (c # cs) =
     (if prefix ''Web UI available at '' (c # cs)
         \<and> takeWhile (\<lambda>x. \<not> line_terminator x) (drop 20 (c # cs)) \<noteq> []
      then Some (takeWhile (\<lambda>x. \<not> line_terminator x) (drop 20 (c # cs)))
      else match_Web_UI cs)"
  by (simp only: match_Web_UI.simps Let_def)

lemma match_Web_UI_skip:
  assumes "match_Web_UI pre = None" and "pre = [] \<or> line_terminator (last pre)"
  shows "match_Web_UI (pre @ s) = match_Web_UI s"
  using assms
proof (induction pre)
  case Nil
  then show ?case by simp
next
  case (Cons c pre)
  let ?P = "''Web UI available at ''"
  let ?full = "c # pre"
  from Cons.prems(2) have nl: "line_terminator (last ?full)" by simp
  from Cons.prems(1) have here: "\<not> (prefix ?P ?full \<and> takeWhile (\<lambda>x. \<not> line_terminator x) (drop 20 ?full) \<noteq> [])"
    and tail: "match_Web_UI pre = None"
    by (auto simp only: match_Web_UI_Cons split: if_splits)
  have pre': "pre = [] \<or> line_terminator (last pre)"
    using nl by (cases pre) auto
  have IH: "match_Web_UI (pre @ s) = match_Web_UI s"
    using Cons.IH [OF tail pre'] .
  have no: "\<not> (prefix ?P (?full @ s) \<and> takeWhile (\<lambda>x. \<not> line_terminator x) (drop 20 (?full @ s)) \<noteq> [])"
  proof
    assume a: "prefix ?P (?full @ s) \<and> takeWhile (\<lambda>x. \<not> line_terminator x) (drop 20 (?full @ s)) \<noteq> []"
    have len: "20 < length ?full"
    proof (rule ccontr)
      assume "\<not> 20 < length ?full"
      then have le: "length ?full \<le> 20" by simp
      from a have "prefix ?P ?full \<or> (\<exists>us. ?P = ?full @ us)"
        by (auto simp: prefix_append)
      then have "prefix ?full ?P"
      proof
        assume p: "prefix ?P ?full"
        then have "length ?P \<le> length ?full" by (rule prefix_length_le)
        with le have eq: "length ?full = length ?P" by simp
        from p obtain zs where zs: "?full = ?P @ zs" by (auto simp: prefix_def)
        then have "length ?full = length ?P + length zs" by (metis length_append)
        with eq have "zs = []" by simp
        with zs show ?thesis by simp
      next
        assume "\<exists>us. ?P = ?full @ us"
        then show ?thesis by (auto simp: prefix_def)
      qed
      then have "set ?full \<subseteq> set ?P" by (rule set_mono_prefix)
      moreover have "last ?full \<in> set ?full" by (rule last_in_set) simp
      ultimately have "last ?full \<in> set ?P" by blast
      with nl ready_prefix_no_terminator show False by blast
    qed
    have pfx: "prefix ?P ?full"
    proof -
      from a have "prefix ?P ?full \<or> (\<exists>us. ?P = ?full @ us)"
        by (auto simp: prefix_append)
      moreover have "\<not> (\<exists>us. ?P = ?full @ us)"
      proof
        assume "\<exists>us. ?P = ?full @ us"
        then obtain us where "?P = ?full @ us" ..
        then have "length ?P = length ?full + length us" by (metis length_append)
        with len show False by simp
      qed
      ultimately show ?thesis by blast
    qed
    with here have tw: "takeWhile (\<lambda>x. \<not> line_terminator x) (drop 20 ?full) = []" by blast
    from len have ne: "drop 20 ?full \<noteq> []" by simp
    with tw have "line_terminator (hd (drop 20 ?full))"
      by (cases "drop 20 ?full") (auto split: if_splits)
    moreover have "drop 20 (?full @ s) = drop 20 ?full @ s"
      using len by simp
    ultimately have "takeWhile (\<lambda>x. \<not> line_terminator x) (drop 20 (?full @ s)) = []"
      using ne by (cases "drop 20 ?full") auto
    with a show False by blast
  qed
  from no have no': "(prefix ?P (c # (pre @ s))
      \<and> takeWhile (\<lambda>x. \<not> line_terminator x) (drop 20 (c # (pre @ s))) \<noteq> []) = False"
    by (simp only: append_Cons)
  have "match_Web_UI (c # (pre @ s)) = match_Web_UI (pre @ s)"
    by (subst match_Web_UI_Cons) (simp only: no' if_False)
  with IH show ?case by (simp only: append_Cons)
qed

text \<open>
  What the pattern finds: nothing in a text that does not hold the fixed prefix, and
  otherwise only a text that follows the prefix and runs to the end of its line.
\<close>

lemma match_Web_UI_absent:
  "\<not> sublist ''Web UI available at '' s \<Longrightarrow> match_Web_UI s = None"
proof (induction s)
  case Nil
  then show ?case by simp
next
  case (Cons c cs)
  from Cons.prems have "\<not> prefix ''Web UI available at '' (c # cs)"
    and "\<not> sublist ''Web UI available at '' cs"
    by (auto simp only: sublist_Cons_right)
  with Cons.IH show ?case
    by (simp only: match_Web_UI_Cons simp_thms if_False)
qed

lemma match_Web_UI_group:
  assumes "match_Web_UI s = Some m"
  shows "m \<noteq> [] \<and> (\<forall>c \<in> set m. \<not> line_terminator c)
       \<and> (\<exists>pre post. s = pre @ ''Web UI available at '' @ m @ post
             \<and> (post = [] \<or> line_terminator (hd post)))"
  using assms
proof (induction s)
  case Nil
  then show ?case by simp
next
  case (Cons c cs)
  let ?P = "''Web UI available at ''"
  let ?rest = "takeWhile (\<lambda>x. \<not> line_terminator x) (drop 20 (c # cs))"
  show ?case
  proof (cases "prefix ?P (c # cs) \<and> ?rest \<noteq> []")
    case True
    with Cons.prems have m: "m = ?rest"
      by (auto simp only: match_Web_UI_Cons split: if_splits)
    from True obtain zs where zs: "c # cs = ?P @ zs"
      by (auto simp only: prefix_def)
    have d: "drop 20 (c # cs) = zs"
      unfolding zs by simp
    let ?post = "dropWhile (\<lambda>x. \<not> line_terminator x) zs"
    have "zs = m @ ?post"
      unfolding m d by simp
    then have "c # cs = [] @ ?P @ m @ ?post"
      using zs by simp
    moreover have "?post = [] \<or> line_terminator (hd ?post)"
      using hd_dropWhile [of "\<lambda>x. \<not> line_terminator x" zs] by blast
    moreover have "m \<noteq> []" using True unfolding m by (rule conjunct2)
    moreover have "\<forall>c \<in> set m. \<not> line_terminator c"
      unfolding m by (blast dest: set_takeWhileD)
    ultimately show ?thesis by blast
  next
    case False
    with Cons.prems have "match_Web_UI cs = Some m"
      by (auto simp only: match_Web_UI_Cons split: if_splits)
    from Cons.IH [OF this] obtain pre post where
      "m \<noteq> []" "\<forall>c \<in> set m. \<not> line_terminator c"
      "cs = pre @ ?P @ m @ post" "post = [] \<or> line_terminator (hd post)"
      by blast
    then have "c # cs = (c # pre) @ ?P @ m @ post" by simp
    with \<open>m \<noteq> []\<close> \<open>\<forall>c \<in> set m. \<not> line_terminator c\<close> \<open>post = [] \<or> line_terminator (hd post)\<close>
    show ?thesis by blast
  qed
qed

lemma stdout_data_settled: "stdout_data L sp (Some v) chunks = Some v"
  by (induction chunks) (simp_all add: resolve_once_def)

lemma stdout_data_skip:
  "\<forall>data \<in> set earlier. match_Web_UI (toString_ascii data) = None \<Longrightarrow>
     stdout_data L sp None (earlier @ chunks) = stdout_data L sp None chunks"
  by (induction earlier) (simp_all add: resolve_once_def scan_for_endpoint_def)

lemma ready_line_group:
  assumes "\<forall>c \<in> set address. \<not> line_terminator c"
      and "post = [] \<or> line_terminator (hd post)"
  shows "takeWhile (\<lambda>x. \<not> line_terminator x) (address @ post) = address"
proof -
  have b: "takeWhile (\<lambda>x. \<not> line_terminator x) post = []"
    using assms(2) by (cases post) auto
  have "takeWhile (\<lambda>x. \<not> line_terminator x) (address @ post)
      = address @ takeWhile (\<lambda>x. \<not> line_terminator x) post"
    by (rule takeWhile_append2) (use assms(1) in blast)
  then show ?thesis by (simp only: b append_Nil2)
qed

lemma ready_line_match:
  assumes pre: "pre = [] \<or> line_terminator (last pre)" "match_Web_UI pre = None"
      and address: "address \<noteq> []" "\<forall>c \<in> set address. \<not> line_terminator c"
      and post: "post = [] \<or> line_terminator (hd post)"
  shows "match_Web_UI (pre @ ''Web UI available at '' @ address @ post) = Some address"
proof -
  have g: "takeWhile (\<lambda>x. \<not> line_terminator x) (address @ post) = address"
    using address(2) post by (rule ready_line_group)
  have "match_Web_UI (''Web UI available at '' @ (address @ post)) = Some address"
    using match_Web_UI_here [of "address @ post"] address(1) by (simp only: g) simp
  then show ?thesis
    using match_Web_UI_skip [OF pre(2) pre(1), of "''Web UI available at '' @ address @ post"]
    by simp
qed

lemma toString_ascii_id:
  "\<forall>c \<in> set s. (of_char c :: nat) < 128 \<Longrightarrow> toString_ascii s = s"
  by (induction s) (simp_all add: toString_ascii_def)

lemma echo_stdout_returns: "fst (echo_stdout I chunks) = Returned ()"
proof -
  have "block (map (\<lambda>data. emit (f data)) xs) = (Returned (), map f xs)" for f and xs :: "string list"
    using block_emits [of "map f xs"] by (simp add: comp_def)
  then show ?thesis
    by (simp add: echo_stdout_def)
qed

lemma serverPromise_settles:
  assumes "\<not> truthy (argv_endpoint I)"
      and "map_of (process_env I) ''VSCODE_REMOTE_SERVER_PATH'' = Some serverPath"
      and "serverPath \<noteq> []"
  shows "product_serverApplicationName I = Inr serverApplicationName
           \<Longrightarrow> fst (serverPromise L I chunks)
                 = (case stdout_data L \<lparr>pid = spawn_pid I\<rparr> None chunks of
                      None \<Rightarrow> Pending | Some r \<Rightarrow> Returned r)"
    and "fst (serverPromise_lib L I chunks)
           = (case stdout_data L \<lparr>pid = spawn_pid I\<rparr> None chunks of
                None \<Rightarrow> Pending | Some r \<Rightarrow> Returned r)"
proof -
  show "fst (serverPromise_lib L I chunks)
           = (case stdout_data L \<lparr>pid = spawn_pid I\<rparr> None chunks of
                None \<Rightarrow> Pending | Some r \<Rightarrow> Returned r)"
    unfolding serverPromise_without_endpoint(2) [OF assms(1)] launchServer_lib_run [OF assms(2,3)]
    by (simp add: bind_io_def return_io_def split: option.splits)
  assume "product_serverApplicationName I = Inr serverApplicationName"
  note run = launchServer_run [OF assms(2,3) this]
  show "fst (serverPromise L I chunks)
           = (case stdout_data L \<lparr>pid = spawn_pid I\<rparr> None chunks of
                None \<Rightarrow> Pending | Some r \<Rightarrow> Returned r)"
    unfolding serverPromise_without_endpoint(1) [OF assms(1)] run
    by (simp add: bind_io_def return_io_def echo_stdout_returns split: option.splits)
qed

text \<open>
  Claim C6. Let the child write chunks of which none before \<open>data\<close> matches the pattern,
  and let \<open>data\<close>, read as ASCII, hold a line \<^verbatim>\<open>Web UI available at \<close>\<open>address\<close>, for
  instance \<^verbatim>\<open>Web UI available at http://127.0.0.1:9999/\<close>: the address is not empty and
  holds no line end, the line starts the chunk or follows a line end, ends the chunk or is
  followed by a line end, and the text before it has no match. Then
  \<^item> after the chunks before \<open>data\<close> the promise of \<^verbatim>\<open>launchServer\<close> is still pending;
  \<^item> on \<open>data\<close> the listener calls the resolver with the endpoint \<^verbatim>\<open>url.parse\<close> returns
    for \<open>address\<close>, the text after the fixed prefix, and with the process handle;
  \<^item> the promise is resolved with this value, whatever follows the line in the chunk and
    whatever chunks are written later, further ready lines included;
  \<^item> the host of that endpoint is the host \<^verbatim>\<open>url.parse\<close> of Node finds in \<open>address\<close> (the
    last hypothesis), \<^verbatim>\<open>127.0.0.1:9999\<close> in the instance;
  \<^item> when the harness has launched the server itself, \<^verbatim>\<open>serverPromise\<close> is pending
    after the chunks before \<open>data\<close> and is fulfilled with this value once \<open>data\<close> is
    written, in both variants.
\<close>

theorem ready_line_resolves_endpoint:
  assumes earlier: "\<forall>data \<in> set earlier. match_Web_UI (toString_ascii data) = None"
      and chunk: "toString_ascii data = pre @ ''Web UI available at '' @ address @ post"
      and pre: "pre = [] \<or> line_terminator (last pre)" "match_Web_UI pre = None"
      and address: "address \<noteq> []" "\<forall>c \<in> set address. \<not> line_terminator c"
      and post: "post = [] \<or> line_terminator (hd post)"
      and lib: "host (url_parse L address) = Some h"
  shows "stdout_data L serverProcess None earlier = None
       \<and> scan_for_endpoint L serverProcess data
           = Some \<lparr>endpoint = url_parse L address, server = Some serverProcess\<rparr>
       \<and> (\<exists>r. stdout_data L serverProcess None (earlier @ data # later) = Some r
           \<and> endpoint r = url_parse L address
           \<and> host (endpoint r) = Some h
           \<and> server r = Some serverProcess
           \<and> (\<not> truthy (argv_endpoint I)
                \<and> map_of (process_env I) ''VSCODE_REMOTE_SERVER_PATH'' = Some serverPath
                \<and> serverPath \<noteq> [] \<and> serverProcess = \<lparr>pid = spawn_pid I\<rparr>
              \<longrightarrow> fst (serverPromise_lib L I earlier) = Pending
                  \<and> fst (serverPromise_lib L I (earlier @ data # later)) = Returned r
                  \<and> (product_serverApplicationName I = Inr serverApplicationName
                      \<longrightarrow> fst (serverPromise L I earlier) = Pending
                          \<and> fst (serverPromise L I (earlier @ data # later)) = Returned r)))"
proof -
  let ?r = "\<lparr>endpoint = url_parse L address, server = Some serverProcess\<rparr>"
  have m: "match_Web_UI (toString_ascii data) = Some address"
    unfolding chunk using pre address post by (rule ready_line_match)
  have before: "stdout_data L serverProcess None earlier = None"
    using stdout_data_skip [OF earlier, of L serverProcess "[]"] by simp
  have scan: "scan_for_endpoint L serverProcess data = Some ?r"
    using m by (simp add: scan_for_endpoint_def)
  have "stdout_data L serverProcess None (earlier @ data # later)
      = stdout_data L serverProcess None (data # later)"
    using earlier by (rule stdout_data_skip)
  also have "\<dots> = Some ?r"
    using scan by (simp add: resolve_once_def stdout_data_settled)
  finally have st: "stdout_data L serverProcess None (earlier @ data # later) = Some ?r" .
  have "fst (serverPromise_lib L I earlier) = Pending
      \<and> fst (serverPromise_lib L I (earlier @ data # later)) = Returned ?r
      \<and> (product_serverApplicationName I = Inr serverApplicationName
          \<longrightarrow> fst (serverPromise L I earlier) = Pending
              \<and> fst (serverPromise L I (earlier @ data # later)) = Returned ?r)"
    if "\<not> truthy (argv_endpoint I)"
      "map_of (process_env I) ''VSCODE_REMOTE_SERVER_PATH'' = Some serverPath"
      "serverPath \<noteq> []" "serverProcess = \<lparr>pid = spawn_pid I\<rparr>"
    using serverPromise_settles [OF that(1-3)] st [unfolded that(4)] before [unfolded that(4)]
      that(4)
    by simp
  with st lib before scan show ?thesis by (intro conjI exI [of _ ?r]) simp_all
qed

text \<open>Three chunks: a first without the line, the ready line of the claim, and a second
  ready line with another address, which is ignored.\<close>

theorem ready_line_resolves_endpoint_witness:
  "match_Web_UI (toString_ascii (''starting'' @ [CHR 0x0A])) = None
   \<and> toString_ascii (''Web UI available at http://127.0.0.1:9999/'' @ [CHR 0x0A])
       = [] @ ''Web UI available at '' @ ''http://127.0.0.1:9999/'' @ [CHR 0x0A]
   \<and> match_Web_UI [] = None
   \<and> ''http://127.0.0.1:9999/'' \<noteq> []
   \<and> list_all (\<lambda>c. \<not> line_terminator c) ''http://127.0.0.1:9999/''
   \<and> line_terminator (hd [CHR 0x0A])
   \<and> host (url_parse node_at_examples ''http://127.0.0.1:9999/'') = Some ''127.0.0.1:9999''
   \<and> stdout_data node_at_examples \<lparr>pid = 4242\<rparr> None [''starting'' @ [CHR 0x0A]] = None
   \<and> scan_for_endpoint node_at_examples \<lparr>pid = 4242\<rparr>
        (''Web UI available at http://127.0.0.1:9999/'' @ [CHR 0x0A])
       = Some \<lparr>endpoint = \<lparr>href = ''http://127.0.0.1:9999/'', host = Some ''127.0.0.1:9999''\<rparr>,
               server = Some \<lparr>pid = 4242\<rparr>\<rparr>
   \<and> stdout_data node_at_examples \<lparr>pid = 4242\<rparr> None
        [''starting'' @ [CHR 0x0A],
         ''Web UI available at http://127.0.0.1:9999/'' @ [CHR 0x0A],
         ''Web UI available at http://10.0.0.1:1/'']
       = Some \<lparr>endpoint = \<lparr>href = ''http://127.0.0.1:9999/'', host = Some ''127.0.0.1:9999''\<rparr>,
               server = Some \<lparr>pid = 4242\<rparr>\<rparr>
   \<and> fst (serverPromise node_at_examples example_invocation [''starting'' @ [CHR 0x0A]]) = Pending
   \<and> fst (serverPromise node_at_examples example_invocation
        [''starting'' @ [CHR 0x0A],
         ''Web UI available at http://127.0.0.1:9999/'' @ [CHR 0x0A],
         ''Web UI available at http://10.0.0.1:1/''])
       = Returned \<lparr>endpoint = \<lparr>href = ''http://127.0.0.1:9999/'', host = Some ''127.0.0.1:9999''\<rparr>,
                   server = Some \<lparr>pid = 4242\<rparr>\<rparr>
   \<and> fst (serverPromise_lib node_at_examples example_invocation [''starting'' @ [CHR 0x0A]])
       = Pending
   \<and> fst (serverPromise_lib node_at_examples example_invocation
        [''starting'' @ [CHR 0x0A],
         ''Web UI available at http://127.0.0.1:9999/'' @ [CHR 0x0A],
         ''Web UI available at http://10.0.0.1:1/''])
       = Returned \<lparr>endpoint = \<lparr>href = ''http://127.0.0.1:9999/'', host = Some ''127.0.0.1:9999''\<rparr>,
                   server = Some \<lparr>pid = 4242\<rparr>\<rparr>"
proof -
  let ?first = "[''starting'' @ [CHR 0x0A]]"
  let ?line = "''Web UI available at http://127.0.0.1:9999/'' @ [CHR 0x0A]"
  let ?chunks = "[''starting'' @ [CHR 0x0A],
         ''Web UI available at http://127.0.0.1:9999/'' @ [CHR 0x0A],
         ''Web UI available at http://10.0.0.1:1/'']"
  let ?r = "\<lparr>endpoint = \<lparr>href = ''http://127.0.0.1:9999/'', host = Some ''127.0.0.1:9999''\<rparr>,
               server = Some \<lparr>pid = 4242\<rparr>\<rparr>"
  have a1: "toString_ascii (''starting'' @ [CHR 0x0A]) = ''starting'' @ [CHR 0x0A]"
    by (rule toString_ascii_id) simp
  have m: "match_Web_UI (''starting'' @ [CHR 0x0A]) = None"
    by (simp add: Let_def)
  have h1: "\<forall>data \<in> set ?first. match_Web_UI (toString_ascii data) = None"
    using a1 m by simp
  have h2: "toString_ascii ?line
       = [] @ ''Web UI available at '' @ ''http://127.0.0.1:9999/'' @ [CHR 0x0A]"
    by (simp only: append_Nil) (subst toString_ascii_id, simp_all)
  have h3: "[] = [] \<or> line_terminator (last [])" by simp
  have h4: "match_Web_UI [] = None" by simp
  have h5: "[CHR 0x0A] = [] \<or> line_terminator (hd [CHR 0x0A])"
    by (simp add: line_terminator_def)
  have h6: "host (url_parse node_at_examples ''http://127.0.0.1:9999/'') = Some ''127.0.0.1:9999''"
    by (simp add: node_at_examples_def)
  have h7: "''http://127.0.0.1:9999/'' \<noteq> []" by simp
  have h8: "\<forall>c \<in> set ''http://127.0.0.1:9999/''. \<not> line_terminator c"
    by (simp add: line_terminator_def)
  have p: "url_parse node_at_examples ''http://127.0.0.1:9999/''
      = \<lparr>href = ''http://127.0.0.1:9999/'', host = Some ''127.0.0.1:9999''\<rparr>"
    by (simp add: node_at_examples_def)
  have l: "\<not> truthy (argv_endpoint example_invocation)"
    "map_of (process_env example_invocation) ''VSCODE_REMOTE_SERVER_PATH'' = Some ''/opt/server''"
    "''/opt/server'' \<noteq> []" "\<lparr>pid = 4242\<rparr> = \<lparr>pid = spawn_pid example_invocation\<rparr>"
    "product_serverApplicationName example_invocation = Inr ''code-server''"
    by (simp_all add: example_invocation_def truthy_def)
  have c: "?first @ ?line # [''Web UI available at http://10.0.0.1:1/''] = ?chunks"
    by (simp only: append_Cons append_Nil)
  note t = ready_line_resolves_endpoint [OF h1 h2 h3 h4 h7 h8 h5 h6,
        of "\<lparr>pid = 4242\<rparr>" "[''Web UI available at http://10.0.0.1:1/'']"
           example_invocation "''/opt/server''" "''code-server''", unfolded c p]
  from t have before: "stdout_data node_at_examples \<lparr>pid = 4242\<rparr> None ?first = None"
    and scan: "scan_for_endpoint node_at_examples \<lparr>pid = 4242\<rparr> ?line = Some ?r"
    by blast+
  from t l obtain r where r: "stdout_data node_at_examples \<lparr>pid = 4242\<rparr> None ?chunks = Some r"
      "endpoint r = \<lparr>href = ''http://127.0.0.1:9999/'', host = Some ''127.0.0.1:9999''\<rparr>"
      "server r = Some \<lparr>pid = 4242\<rparr>"
      "fst (serverPromise_lib node_at_examples example_invocation ?first) = Pending"
      "fst (serverPromise_lib node_at_examples example_invocation ?chunks) = Returned r"
      "fst (serverPromise node_at_examples example_invocation ?first) = Pending"
      "fst (serverPromise node_at_examples example_invocation ?chunks) = Returned r"
    by blast
  from r(2,3) have "r = ?r"
    by (cases r) simp
  with r(1,4-7) before scan have
    "stdout_data node_at_examples \<lparr>pid = 4242\<rparr> None ?first = None
     \<and> scan_for_endpoint node_at_examples \<lparr>pid = 4242\<rparr> ?line = Some ?r
     \<and> stdout_data node_at_examples \<lparr>pid = 4242\<rparr> None ?chunks = Some ?r
     \<and> fst (serverPromise node_at_examples example_invocation ?first) = Pending
     \<and> fst (serverPromise node_at_examples example_invocation ?chunks) = Returned ?r
     \<and> fst (serverPromise_lib node_at_examples example_invocation ?first) = Pending
     \<and> fst (serverPromise_lib node_at_examples example_invocation ?chunks) = Returned ?r"
    by blast
  moreover have "list_all (\<lambda>c. \<not> line_terminator c) ''http://127.0.0.1:9999/''"
    by (simp add: line_terminator_def)
  ultimately show ?thesis
    using a1 m h2 h4 h5 h6 by (simp del: stdout_data.simps)
qed

subsection \<open>The authentication cookie\<close>




text \<open>
  Outside ASCII the capital is JavaScript's: \<^verbatim>\<open>e\<close> with an acute accent (code unit 233)
  becomes the capital letter (code unit 201), and the sharp s (code unit 223) becomes
  \<^verbatim>\<open>SS\<close>.
\<close>

lemma capitalize_outside_ascii:
  "capitalize node_at_examples [CHR 0xE9, CHR ''x''] = [CHR 0xC9, CHR ''x'']"
  "capitalize node_at_examples [CHR 0xDF] = ''SS''"
  by (simp_all add: capitalize_def toUpperCase_def node_at_examples_def)







subsection \<open>Without a cookie\<close>

text \<open>
  Claim C8. When neither the \<^verbatim>\<open>authCookie\<close> flag nor \<^verbatim>\<open>AUTH_COOKIE\<close> is set (or both are
  empty), no run of the session calls \<^verbatim>\<open>context.addCookies\<close>, whatever the browser
  answers: the session leaves the cookies of the context as they are. (\<^verbatim>\<open>lib/index.ts\<close>
  has no \<^verbatim>\<open>authCookie\<close> flag and reads the variable only.)
\<close>

theorem no_cookie_without_authCookie:
  assumes "\<not> truthy (argv_authCookie I)" "\<not> truthy (map_of (process_env I) ''AUTH_COOKIE'')"
  shows "AddCookies cs \<notin> set (snd (runTestsInBrowser L rej I bt ep srv))
       \<and> AddCookies cs \<notin> set (snd (runTestsInBrowser_lib L rej I bt ep srv))"
proof
  show "AddCookies cs \<notin> set (snd (runTestsInBrowser L rej I bt ep srv))"
    unfolding runTestsInBrowser_def
    by (rule not_in_block) (auto simp: no_cookie_refined [OF assms] split: sum.splits)
  show "AddCookies cs \<notin> set (snd (runTestsInBrowser_lib L rej I bt ep srv))"
    unfolding runTestsInBrowser_lib_def
    by (rule not_in_block) (auto simp: no_cookie_lib [OF assms(2)] split: sum.splits)
qed

text \<open>The worked invocation gives no cookie.\<close>

theorem no_cookie_without_authCookie_witness:
  "argv_authCookie example_invocation = None
   \<and> map_of (process_env example_invocation) ''AUTH_COOKIE'' = None
   \<and> AddCookies [example_cookie] \<notin> set (snd example_session)
   \<and> AddCookies [example_cookie] \<notin> set (snd example_session_lib)"
proof -
  have "argv_authCookie example_invocation = None"
    "map_of (process_env example_invocation) ''AUTH_COOKIE'' = None"
    by (simp_all add: example_invocation_def)
  then show ?thesis
    using no_cookie_without_authCookie [OF example_no_cookie, of "[example_cookie]"
        node_at_examples "\<lambda>e. None" chromium example_endpoint None]
    unfolding example_session_def example_session_lib_def by blast
qed

subsection \<open>The console relay\<close>



subsection \<open>The separator of the address\<close>

text \<open>
  Claim C10. With the three path flags given, the address \<^verbatim>\<open>src/index.ts\<close> navigates to
  is the \<^verbatim>\<open>href\<close> of the endpoint followed by \<^verbatim>\<open>&workspace=\<close> or \<^verbatim>\<open>&folder=\<close>, the
  workspace path, \<^verbatim>\<open>&payload=\<close> and the payload; so when the \<^verbatim>\<open>href\<close> holds no \<^verbatim>\<open>?\<close>,
  there is none in the address up to and including the name of its first parameter. The
  address of \<^verbatim>\<open>lib/index.ts\<close> is the \<^verbatim>\<open>href\<close> followed by \<^verbatim>\<open>?workspace=\<close> or
  \<^verbatim>\<open>?folder=\<close>, the workspace URI, \<^verbatim>\<open>&payload=\<close> and the payload.
\<close>

theorem navigation_url_separator:
  assumes "file_uri_path L (argv_workspacePath I) = Inr w"
      and "file_uri_path L (argv_extensionDevelopmentPath I) = Inr x"
      and "file_uri_path L (argv_extensionTestsPath I) = Inr t"
  shows "navigation_url L I ep =
           Inr (href ep @ ''&''
                @ (if path_extname L w = ''.code-workspace'' then ''workspace'' else ''folder'')
                @ ''='' @ w @ ''&payload=''
                @ payloadParam (url_format L x protocol (host ep) True)
                    (url_format L t protocol (host ep) True))
       \<and> (CHR ''?'' \<notin> set (href ep) \<longrightarrow>
            CHR ''?'' \<notin> set (href ep @ ''&''
                @ (if path_extname L w = ''.code-workspace'' then ''workspace'' else ''folder'')
                @ ''=''))
       \<and> navigation_url_lib L I ep =
           Inr (href ep @ ''?''
                @ (if path_extname L (url_format L w protocol (host ep) True) = ''.code-workspace''
                   then ''workspace'' else ''folder'')
                @ ''='' @ url_format L w protocol (host ep) True @ ''&payload=''
                @ payloadParam_lib (url_format L x protocol (host ep) True)
                    (url_format L t protocol (host ep) True))"
  using navigation_url_Inr [OF assms] navigation_url_lib_Inr [OF assms] by simp

text \<open>The two addresses of the worked invocation.\<close>

theorem navigation_url_separator_witness:
  \<open>file_uri_path node_at_examples (argv_workspacePath example_invocation)
     = Inr ''/ws/demo.code-workspace''
   \<and> file_uri_path node_at_examples (argv_extensionDevelopmentPath example_invocation)
     = Inr ''/ext''
   \<and> file_uri_path node_at_examples (argv_extensionTestsPath example_invocation)
     = Inr ''/ext/out/test''
   \<and> CHR ''?'' \<notin> set (href example_endpoint)
   \<and> navigation_url node_at_examples example_invocation example_endpoint
     = Inr ''http://127.0.0.1:9999/&workspace=/ws/demo.code-workspace&payload=[["extensionDevelopmentPath","vscode-remote://127.0.0.1:9999/ext"],["extensionTestsPath","vscode-remote://127.0.0.1:9999/ext/out/test"],["enableProposedApi",""],["skipWelcome","true"]]''
   \<and> CHR ''?'' \<notin> set ''http://127.0.0.1:9999/&workspace=''
   \<and> navigation_url_lib node_at_examples example_invocation example_endpoint
     = Inr ''http://127.0.0.1:9999/?workspace=vscode-remote://127.0.0.1:9999/ws/demo.code-workspace&payload=[["extensionDevelopmentPath","vscode-remote://127.0.0.1:9999/ext"],["extensionTestsPath","vscode-remote://127.0.0.1:9999/ext/out/test"],["enableProposedApi",""],["webviewExternalEndpointCommit","5f19eee5dc9588ca96192f89587b5878b7d7180d"],["skipWelcome","true"]]''\<close>
proof -
  have q: "CHR ''?'' \<notin> set (href example_endpoint)"
    by (simp add: example_endpoint_def)
  have e: "path_extname node_at_examples ''/ws/demo.code-workspace'' = ''.code-workspace''"
    "path_extname node_at_examples
       (url_format node_at_examples ''/ws/demo.code-workspace'' protocol (host example_endpoint) True)
     = ''.code-workspace''"
    by (simp_all add: node_at_examples_def example_endpoint_def protocol_def
        posix_extname_examples)
  show ?thesis
    using q navigation_url_separator [OF example_paths, of example_endpoint]
    by (simp add: example_paths e)
       (simp add: node_at_examples_def example_endpoint_def protocol_def
          payloadParam_def payloadParam_lib_def)
qed

end
